theory Spec2Isabelle
  imports Complex_Main "HOL-Library.Sublist" "HOL-Library.AList"
begin

section \<open>JavaScript values used by the configuration manager\<close>

text \<open>
  Strings are lists of characters; a character stands for one code unit below 256.
  A value that may be \<^verbatim>\<open>undefined\<close> at run time (an array element read past the end, an
  optional argument) is a \<open>string option\<close>, with \<open>None\<close> for \<^verbatim>\<open>undefined\<close>.
\<close>

abbreviation LF :: char where
  "LF \<equiv> CHR 0x0A"

abbreviation BAR :: char where
  "BAR \<equiv> CHR ''|''"

abbreviation DQ :: char where
  "DQ \<equiv> CHR 0x22"

text \<open>A value inside a template literal: \<^verbatim>\<open>`${v}`\<close> prints \<^verbatim>\<open>undefined\<close> as that word.\<close>

definition toStr :: "string option \<Rightarrow> string" where
  "toStr v = (case v of None \<Rightarrow> ''undefined'' | Some s \<Rightarrow> s)"

text \<open>\<^verbatim>\<open>v || d\<close> on a string that may be undefined: undefined and the empty string are falsy.\<close>

definition orElse :: "string option \<Rightarrow> string \<Rightarrow> string" where
  "orElse v d = (case v of None \<Rightarrow> d | Some s \<Rightarrow> if s = [] then d else s)"

text \<open>\<^verbatim>\<open>parts[i]\<close>: reading past the end of an array gives \<^verbatim>\<open>undefined\<close>.\<close>

definition nth_opt :: "'a list \<Rightarrow> nat \<Rightarrow> 'a option" where
  "nth_opt xs i = (if i < length xs then Some (xs ! i) else None)"

text \<open>\<^verbatim>\<open>s.split(c)\<close> for a separator of one character; the empty string gives one empty part.\<close>

primrec split :: "char \<Rightarrow> string \<Rightarrow> string list" where
  "split c [] = [[]]"
| "split c (x # xs) =
     (if x = c then [] # split c xs
      else (case split c xs of [] \<Rightarrow> [[x]] | y # ys \<Rightarrow> (x # y) # ys))"

text \<open>\<^verbatim>\<open>parts.join(sep)\<close>.\<close>

fun join :: "string \<Rightarrow> string list \<Rightarrow> string" where
  "join sep [] = []"
| "join sep [x] = x"
| "join sep (x # y # ys) = x @ sep @ join sep (y # ys)"

text \<open>
  The characters \<^verbatim>\<open>trim\<close> removes, among the code units below 256: tab, line feed,
  vertical tab, form feed, carriage return, space and the no-break space.
\<close>

definition isWhitespace :: "char \<Rightarrow> bool" where
  "isWhitespace ch = (of_char ch \<in> {9, 10, 11, 12, 13, 32, 160 :: nat})"

text \<open>\<^verbatim>\<open>line.trim()\<close> used as a condition: true when something is left after trimming.\<close>

definition trimTruthy :: "string \<Rightarrow> bool" where
  "trimTruthy line = (\<not> list_all isWhitespace line)"

text \<open>
  \<^verbatim>\<open>s.toLowerCase()\<close> on code units below 256: the letters A to Z, and the accented
  capitals 0xC0 to 0xDE other than the multiplication sign 0xD7, move up by 0x20.
\<close>

definition lowerChar :: "char \<Rightarrow> char" where
  "lowerChar ch =
     (let n = (of_char ch :: nat)
      in if (65 \<le> n \<and> n \<le> 90) \<or> (192 \<le> n \<and> n \<le> 222 \<and> n \<noteq> 215)
         then char_of (n + 32) else ch)"

definition toLowerCase :: "string \<Rightarrow> string" where
  "toLowerCase s = map lowerChar s"

text \<open>\<^verbatim>\<open>s.startsWith(p)\<close> is \<^const>\<open>prefix\<close>, \<^verbatim>\<open>s.includes(p)\<close> is \<^const>\<open>sublist\<close>.\<close>

text \<open>
  \<^verbatim>\<open>s.indexOf(p)\<close>: the first position at which \<open>p\<close> occurs in \<open>s\<close>; \<open>None\<close> stands
  for the result -1.
\<close>

primrec indexOf :: "string \<Rightarrow> string \<Rightarrow> nat option" where
  "indexOf [] p = (if p = [] then Some 0 else None)"
| "indexOf (x # xs) p =
     (if prefix p (x # xs) then Some 0 else map_option Suc (indexOf xs p))"

section \<open>Commands.determineKeyType\<close>

definition tokenUrls :: "string list" where
  "tokenUrls = [''https://code.wenwen-ai.com'', ''https://api.aicodewith.com'']"

definition keyUrls :: "string list" where
  "keyUrls = [''https://api.aicodemirror.com/api/claudecode'', ''https://gaccode.com/claudecode'']"

text \<open>
  The result is one of the two string literals \<^verbatim>\<open>'KEY'\<close> and \<^verbatim>\<open>'TOKEN'\<close>. The outer
  condition \<^verbatim>\<open>if (manualType)\<close> holds for a defined, non-empty string.
\<close>

definition determineKeyType :: "string \<Rightarrow> string option \<Rightarrow> string" where
  "determineKeyType url manualType =
     (let byUrl = (if url \<in> set tokenUrls then ''TOKEN''
                   else if url \<in> set keyUrls then ''KEY''
                   else ''TOKEN'')
      in case manualType of
           None \<Rightarrow> byUrl
         | Some m \<Rightarrow>
             if m = [] then byUrl
             else (let normalizedType = toLowerCase m
                   in if normalizedType \<in> set [''key'', ''k''] then ''KEY''
                      else if normalizedType \<in> set [''token'', ''t''] then ''TOKEN''
                      else byUrl))"

section \<open>Files, environment and errors\<close>

text \<open>
  Modelled from the spec: the declaration file \<^verbatim>\<open>../types\<close> with \<^verbatim>\<open>Config\<close> and
  \<^verbatim>\<open>CurrentConfig\<close> is not among the sources. A profile has an alias, a display name, a
  secret, a base URL and a credential kind; the current configuration adds \<open>isActive\<close>.
  The fields hold what the code puts there at run time: a field read from a line with too
  few parts is \<^verbatim>\<open>undefined\<close>, and the kind is whatever string the fifth part is.
\<close>

record Config =
  alias' :: "string option"
  name :: "string option"
  token :: "string option"
  url :: "string option"
  type :: "string option"

record CurrentConfig = Config +
  isActive :: bool

text \<open>The files the manager touches, all below the home directory.\<close>

datatype path =
    ConfigFile         \<comment> \<open>\<^verbatim>\<open>~/.claude/.claude_config\<close>\<close>
  | CurrentFile        \<comment> \<open>\<^verbatim>\<open>~/.claude/.claude_current\<close>\<close>
  | SettingsFile       \<comment> \<open>\<^verbatim>\<open>~/.claude/settings.json\<close>\<close>
  | Zshrc              \<comment> \<open>\<^verbatim>\<open>~/.zshrc\<close>\<close>
  | BashProfile        \<comment> \<open>\<^verbatim>\<open>~/.bash_profile\<close>\<close>
  | Bashrc             \<comment> \<open>\<^verbatim>\<open>~/.bashrc\<close>\<close>
  | DotProfile         \<comment> \<open>\<^verbatim>\<open>~/.profile\<close>\<close>
  | PowerShellProfile  \<comment> \<open>\<^verbatim>\<open>~/Documents/WindowsPowerShell/Microsoft.PowerShell_profile.ps1\<close>\<close>
  | PowerShellDir      \<comment> \<open>the directory \<^verbatim>\<open>~/Documents/WindowsPowerShell\<close>\<close>

text \<open>
  A JSON document. An object keeps its members in order; \<^const>\<open>map_of\<close> reads a member.
  The settings file is represented by the document its text parses to, so that
  \<^verbatim>\<open>JSON.stringify\<close> followed by \<^verbatim>\<open>JSON.parse\<close> gives the document back.
\<close>

datatype json =
    JNull
  | JBool bool
  | JNum real
  | JStr string
  | JArr "json list"
  | JObj "(string \<times> json) list"

text \<open>The settings file, when it exists: text that does not read or parse, or a document.\<close>

datatype settings_content = Unparsable | Parsed json

datatype error =
    DuplicateAlias string
  | UnknownAlias string
  | NoSuchFile path
  | WriteFailed path
  | TypeError
  | SettingsWriteFailed
  | EmptyPath

text \<open>
  The state the manager runs in: the text files by path, the directories that exist, the
  settings file, the process environment, the user environment that \<^verbatim>\<open>setx\<close> writes, the
  platform name, the paths on which a write, an unlink or a directory creation is refused,
  and whether \<^verbatim>\<open>setx\<close> fails. Reading a file that exists succeeds. Console output is
  left out.
\<close>

record state =
  files :: "path \<rightharpoonup> string"
  directories :: "path set"
  settings :: "settings_content option"
  env :: "string \<rightharpoonup> string"
  userEnv :: "string \<rightharpoonup> string"
  platform :: string
  unwritable :: "path set"
  setxFails :: bool

definition existsSync :: "path \<Rightarrow> state \<Rightarrow> bool" where
  "existsSync p st = (files st p \<noteq> None)"

definition readFileSync :: "path \<Rightarrow> state \<Rightarrow> error + string" where
  "readFileSync p st = (case files st p of None \<Rightarrow> Inl (NoSuchFile p) | Some c \<Rightarrow> Inr c)"

definition writeFileSync :: "path \<Rightarrow> string \<Rightarrow> state \<Rightarrow> error + state" where
  "writeFileSync p c st =
     (if p \<in> unwritable st then Inl (WriteFailed p)
      else Inr (st\<lparr>files := (files st)(p \<mapsto> c)\<rparr>))"

definition appendFileSync :: "path \<Rightarrow> string \<Rightarrow> state \<Rightarrow> error + state" where
  "appendFileSync p c st =
     (if p \<in> unwritable st then Inl (WriteFailed p)
      else Inr (st\<lparr>files := (files st)(p \<mapsto> (case files st p of None \<Rightarrow> c | Some old \<Rightarrow> old @ c))\<rparr>))"

text \<open>\<^verbatim>\<open>fs.mkdirSync(p, { recursive: true })\<close>.\<close>

definition mkdirSync :: "path \<Rightarrow> state \<Rightarrow> error + state" where
  "mkdirSync p st =
     (if p \<in> unwritable st then Inl (WriteFailed p)
      else Inr (st\<lparr>directories := insert p (directories st)\<rparr>))"

definition unlinkSync :: "path \<Rightarrow> state \<Rightarrow> error + state" where
  "unlinkSync p st =
     (if p \<in> unwritable st then Inl (WriteFailed p)
      else if files st p = None then Inl (NoSuchFile p)
      else Inr (st\<lparr>files := (files st)(p := None)\<rparr>))"

section \<open>ConfigManager: the profile list\<close>

text \<open>An operation returns its result or the error it throws, and the state it leaves.\<close>

definition initConfig :: "state \<Rightarrow> (error + unit) \<times> state" where
  "initConfig st =
     (if \<not> existsSync ConfigFile st then
        (case writeFileSync ConfigFile [] st of
           Inl e \<Rightarrow> (Inl e, st)
         | Inr st' \<Rightarrow> (Inr (), st'))
      else (Inr (), st))"

text \<open>The body of the \<^verbatim>\<open>map\<close> callback of \<^verbatim>\<open>getAllConfigs\<close>.\<close>

definition parseLine :: "string \<Rightarrow> Config" where
  "parseLine line =
     (let parts = split BAR line
      in \<lparr>alias' = nth_opt parts 0, name = nth_opt parts 1, token = nth_opt parts 2,
          url = nth_opt parts 3, type = Some (orElse (nth_opt parts 4) ''TOKEN'')\<rparr>)"

definition parseConfigs :: "string \<Rightarrow> Config list" where
  "parseConfigs content = map parseLine (filter trimTruthy (split LF content))"

definition getAllConfigs :: "state \<Rightarrow> (error + Config list) \<times> state" where
  "getAllConfigs st =
     (case initConfig st of
        (Inl e, st') \<Rightarrow> (Inl e, st')
      | (Inr _, st') \<Rightarrow>
          (case readFileSync ConfigFile st' of
             Inl e \<Rightarrow> (Inl e, st')
           | Inr content \<Rightarrow> (Inr (parseConfigs content), st')))"

definition getConfig :: "string \<Rightarrow> state \<Rightarrow> (error + Config option) \<times> state" where
  "getConfig a st =
     (case getAllConfigs st of
        (Inl e, st') \<Rightarrow> (Inl e, st')
      | (Inr configs, st') \<Rightarrow> (Inr (find (\<lambda>config. alias' config = Some a) configs), st'))"

text \<open>
  The record line \<^verbatim>\<open>`${alias}|${name}|${token}|${url}|${type || 'TOKEN'}`\<close>, written by
  \<^verbatim>\<open>removeConfig\<close> for each remaining record and by \<^verbatim>\<open>setCurrentConfig\<close>.
\<close>

definition configLine :: "Config \<Rightarrow> string" where
  "configLine config =
     toStr (alias' config) @ [BAR] @ toStr (name config) @ [BAR] @ toStr (token config)
       @ [BAR] @ toStr (url config) @ [BAR] @ orElse (type config) ''TOKEN''"

definition addConfig ::
  "string \<Rightarrow> string \<Rightarrow> string \<Rightarrow> string \<Rightarrow> string option \<Rightarrow> state \<Rightarrow> (error + unit) \<times> state" where
  "addConfig a n t u keyType st =
     (case getAllConfigs st of
        (Inl e, st') \<Rightarrow> (Inl e, st')
      | (Inr configs, st') \<Rightarrow>
          (case find (\<lambda>config. alias' config = Some a) configs of
             Some _ \<Rightarrow> (Inl (DuplicateAlias a), st')
           | None \<Rightarrow>
               (let newConfig = a @ [BAR] @ n @ [BAR] @ t @ [BAR] @ u @ [BAR] @ orElse keyType ''TOKEN''
                in case appendFileSync ConfigFile (LF # newConfig) st' of
                     Inl e \<Rightarrow> (Inl e, st')
                   | Inr st'' \<Rightarrow> (Inr (), st''))))"

definition removeConfig :: "string \<Rightarrow> state \<Rightarrow> (error + Config) \<times> state" where
  "removeConfig a st =
     (case getAllConfigs st of
        (Inl e, st') \<Rightarrow> (Inl e, st')
      | (Inr configs, st') \<Rightarrow>
          (case find (\<lambda>config. alias' config = Some a) configs of
             None \<Rightarrow> (Inl (UnknownAlias a), st')
           | Some configToRemove \<Rightarrow>
               (let remainingConfigs = filter (\<lambda>config. alias' config \<noteq> Some a) configs;
                    content = join [LF] (map configLine remainingConfigs)
                in case writeFileSync ConfigFile content st' of
                     Inl e \<Rightarrow> (Inl e, st')
                   | Inr st1 \<Rightarrow>
                       (if existsSync CurrentFile st1 then
                          (case readFileSync CurrentFile st1 of
                             Inl e \<Rightarrow> (Inl e, st1)
                           | Inr currentContent \<Rightarrow>
                               (if prefix (a @ [BAR]) currentContent then
                                  (case unlinkSync CurrentFile st1 of
                                     Inl e \<Rightarrow> (Inl e, st1)
                                   | Inr st2 \<Rightarrow> (Inr configToRemove, st2))
                                else (Inr configToRemove, st1)))
                        else (Inr configToRemove, st1)))))"

text \<open>The stored profiles: what the profile-list file holds, none when it is absent.\<close>

definition storedConfigs :: "state \<Rightarrow> Config list" where
  "storedConfigs st = (case files st ConfigFile of None \<Rightarrow> [] | Some content \<Rightarrow> parseConfigs content)"

section \<open>ConfigManager: the settings file\<close>

definition defaultSettings :: json where
  "defaultSettings =
     JObj [(''env'', JObj [(''ANTHROPIC_AUTH_TOKEN'', JStr []),
                           (''ANTHROPIC_BASE_URL'', JStr []),
                           (''CLAUDE_CODE_MAX_OUTPUT_TOKENS'', JStr ''32000''),
                           (''CLAUDE_CODE_DISABLE_NONESSENTIAL_TRAFFIC'', JNum 1)]),
           (''permissions'', JObj [(''allow'', JArr []), (''deny'', JArr [])])]"

text \<open>A file that is absent, unreadable or not JSON gives the default document.\<close>

definition readClaudeSettings :: "state \<Rightarrow> json" where
  "readClaudeSettings st =
     (case settings st of Some (Parsed d) \<Rightarrow> d | _ \<Rightarrow> defaultSettings)"

text \<open>
  \<^verbatim>\<open>obj[k] = v\<close> on the members of an object, as the written file shows it: an existing
  member keeps its place, a new one goes last, and a member set to \<^verbatim>\<open>undefined\<close> is
  left out by \<^verbatim>\<open>JSON.stringify\<close>.
\<close>

definition setMember :: "string \<Rightarrow> string option \<Rightarrow> (string \<times> json) list \<Rightarrow> (string \<times> json) list" where
  "setMember k v members =
     (case v of None \<Rightarrow> AList.delete k members | Some s \<Rightarrow> AList.update k (JStr s) members)"

text \<open>
  \<^verbatim>\<open>settings.env[k] = v\<close>. It throws a TypeError when \<^verbatim>\<open>settings\<close> is not an object
  with a member \<^verbatim>\<open>env\<close>, and when \<^verbatim>\<open>env\<close> is null or a primitive (the module is
  strict code). On an array the assignment adds a property that is not written out.
\<close>

definition assignEnv :: "string \<Rightarrow> string option \<Rightarrow> json \<Rightarrow> error + json" where
  "assignEnv k v doc =
     (case doc of
        JObj members \<Rightarrow>
          (case map_of members ''env'' of
             Some (JObj e) \<Rightarrow> Inr (JObj (AList.update ''env'' (JObj (setMember k v e)) members))
           | Some (JArr xs) \<Rightarrow> Inr doc
           | _ \<Rightarrow> Inl TypeError)
      | _ \<Rightarrow> Inl TypeError)"

text \<open>
  The creation of the settings directory and the write are inside one \<^verbatim>\<open>try\<close>; a failure
  of either is thrown as the same error.
\<close>

definition writeClaudeSettings :: "json \<Rightarrow> state \<Rightarrow> (error + unit) \<times> state" where
  "writeClaudeSettings doc st =
     (if SettingsFile \<in> unwritable st then (Inl SettingsWriteFailed, st)
      else (Inr (), st\<lparr>settings := Some (Parsed doc)\<rparr>))"

definition updateClaudeSettings :: "string option \<Rightarrow> string option \<Rightarrow> state \<Rightarrow> (error + unit) \<times> state" where
  "updateClaudeSettings tok baseUrl st =
     (case assignEnv ''ANTHROPIC_AUTH_TOKEN'' tok (readClaudeSettings st) of
        Inl e \<Rightarrow> (Inl e, st)
      | Inr doc1 \<Rightarrow>
          (case assignEnv ''ANTHROPIC_BASE_URL'' baseUrl doc1 of
             Inl e \<Rightarrow> (Inl e, st)
           | Inr doc2 \<Rightarrow> writeClaudeSettings doc2 st))"

section \<open>ConfigManager: shell detection and the shell start-up file\<close>

definition isWindows :: "state \<Rightarrow> bool" where
  "isWindows st = (platform st = ''win32'')"

text \<open>An environment variable used as a condition: set and not empty.\<close>

definition truthy :: "string option \<Rightarrow> bool" where
  "truthy v = (case v of None \<Rightarrow> False | Some s \<Rightarrow> s \<noteq> [])"

definition detectShell :: "state \<Rightarrow> string" where
  "detectShell st =
     (if isWindows st then
        (if truthy (env st ''PSModulePath'') then ''powershell''
         else if (case env st ''COMSPEC'' of None \<Rightarrow> False | Some c \<Rightarrow> c \<noteq> [] \<and> sublist ''cmd'' c)
           then ''cmd''
         else ''powershell'')
      else
        (let shell = orElse (env st ''SHELL'') []
         in if sublist ''zsh'' shell then ''zsh''
            else if sublist ''bash'' shell then ''bash''
            else if truthy (env st ''ZSH_VERSION'') \<or> truthy (env st ''ZSH_NAME'') then ''zsh''
            else if truthy (env st ''BASH_VERSION'') then ''bash''
            else ''unknown''))"

text \<open>
  The start-up file of the detected shell; \<open>None\<close> is the empty path returned for cmd.
  For PowerShell the profile directory is created when it is missing, and a failure to
  create it is thrown.
\<close>

definition getProfileFile :: "state \<Rightarrow> (error + path option) \<times> state" where
  "getProfileFile st =
     (let shellType = detectShell st
      in if isWindows st then
           (if shellType = ''powershell'' then
              (if PowerShellDir \<notin> directories st then
                 (case mkdirSync PowerShellDir st of
                    Inl e \<Rightarrow> (Inl e, st)
                  | Inr st' \<Rightarrow> (Inr (Some PowerShellProfile), st'))
               else (Inr (Some PowerShellProfile), st))
            else if shellType = ''cmd'' then (Inr None, st)
            else (Inr (Some PowerShellProfile), st))
         else
           (if shellType = ''zsh'' then (Inr (Some Zshrc), st)
            else if shellType = ''bash'' then
              (if existsSync BashProfile st then (Inr (Some BashProfile), st)
               else (Inr (Some Bashrc), st))
            else (Inr (Some DotProfile), st)))"

text \<open>\<^verbatim>\<open>setx key "value"\<close>; a failure is caught and only logged.\<close>

definition setWindowsEnvironmentVariable :: "string \<Rightarrow> string option \<Rightarrow> state \<Rightarrow> state" where
  "setWindowsEnvironmentVariable key v st =
     (if setxFails st then st else st\<lparr>userEnv := (userEnv st)(key \<mapsto> toStr v)\<rparr>)"

definition envVarStart :: string where
  "envVarStart = ''# Claude Code Environment Variables''"

definition envVarEnd :: string where
  "envVarEnd = ''# End Claude Code Environment Variables''"

text \<open>\<^verbatim>\<open>config.type === 'KEY' ? 'ANTHROPIC_API_KEY' : 'ANTHROPIC_AUTH_TOKEN'\<close>.\<close>

definition envVarOf :: "Config \<Rightarrow> string" where
  "envVarOf config = (if type config = Some ''KEY'' then ''ANTHROPIC_API_KEY'' else ''ANTHROPIC_AUTH_TOKEN'')"

text \<open>
  The new content of a start-up file: the block replaces the text from the first start
  marker to the end of the first end marker when both are found, and is appended otherwise.
\<close>

definition windowsPowerShellContent :: "Config \<Rightarrow> string \<Rightarrow> string" where
  "windowsPowerShellContent config content =
     (let startIndex = indexOf content envVarStart;
          endIndex = indexOf content envVarEnd;
          envVar = envVarOf config;
          newEnvVars = envVarStart @ [LF]
            @ ''$env:ANTHROPIC_BASE_URL = '' @ [DQ] @ toStr (url config) @ [DQ] @ [LF]
            @ ''$env:'' @ envVar @ '' = '' @ [DQ] @ toStr (token config) @ [DQ] @ [LF]
            @ envVarEnd
      in case (startIndex, endIndex) of
           (Some i, Some j) \<Rightarrow> take i content @ newEnvVars @ drop (j + length envVarEnd) content
         | _ \<Rightarrow> (if content \<noteq> [] \<and> \<not> suffix [LF] content then content @ [LF] else content)
                 @ [LF] @ newEnvVars @ [LF])"

definition updateWindowsPowerShellConfig :: "Config \<Rightarrow> path \<Rightarrow> state \<Rightarrow> (error + unit) \<times> state" where
  "updateWindowsPowerShellConfig config profileFile st =
     (let content = (case files st profileFile of None \<Rightarrow> [] | Some c \<Rightarrow> c)
      in case writeFileSync profileFile (windowsPowerShellContent config content) st of
           Inl e \<Rightarrow> (Inl e, st)
         | Inr st' \<Rightarrow> (Inr (), st'))"

definition unixShellContent :: "Config \<Rightarrow> string \<Rightarrow> string" where
  "unixShellContent config content =
     (let startIndex = indexOf content envVarStart;
          endIndex = indexOf content envVarEnd;
          envVar = envVarOf config;
          newEnvVars = envVarStart @ [LF]
            @ ''export ANTHROPIC_BASE_URL='' @ [DQ] @ toStr (url config) @ [DQ] @ [LF]
            @ ''export '' @ envVar @ ''='' @ [DQ] @ toStr (token config) @ [DQ] @ [LF]
            @ envVarEnd
      in case (startIndex, endIndex) of
           (Some i, Some j) \<Rightarrow> take i content @ newEnvVars @ drop (j + length envVarEnd) content
         | _ \<Rightarrow> (if content \<noteq> [] \<and> \<not> suffix [LF] content then content @ [LF] else content)
                 @ [LF] @ newEnvVars @ [LF])"

definition updateUnixShellConfig :: "Config \<Rightarrow> path \<Rightarrow> state \<Rightarrow> (error + unit) \<times> state" where
  "updateUnixShellConfig config profileFile st =
     (let content = (case files st profileFile of None \<Rightarrow> [] | Some c \<Rightarrow> c)
      in case writeFileSync profileFile (unixShellContent config content) st of
           Inl e \<Rightarrow> (Inl e, st)
         | Inr st' \<Rightarrow> (Inr (), st'))"

text \<open>
  Both credential variables are deleted, then one is set. An assignment to
  \<^verbatim>\<open>process.env\<close> stores the value as a string.
\<close>

definition setCurrentSessionEnvironmentVariables :: "Config \<Rightarrow> state \<Rightarrow> state" where
  "setCurrentSessionEnvironmentVariables config st =
     (let envVar = envVarOf config;
          e0 = (env st)(''ANTHROPIC_AUTH_TOKEN'' := None, ''ANTHROPIC_API_KEY'' := None)
      in st\<lparr>env := e0(envVar \<mapsto> toStr (token config), ''ANTHROPIC_BASE_URL'' \<mapsto> toStr (url config))\<rparr>)"

text \<open>
  \<^verbatim>\<open>getProfileFile\<close> runs first; when it throws, nothing else happens. On a Unix system
  it always names a file; a write to the empty path would fail.
\<close>

definition updateShellConfig :: "Config \<Rightarrow> state \<Rightarrow> (error + unit) \<times> state" where
  "updateShellConfig config st =
     (case getProfileFile st of
        (Inl e, st0) \<Rightarrow> (Inl e, st0)
      | (Inr profileFile, st0) \<Rightarrow>
          (let shellType = detectShell st0;
               st1 = setCurrentSessionEnvironmentVariables config st0
           in if isWindows st1 then
                (case (if shellType = ''cmd'' then None else profileFile) of
                   None \<Rightarrow>
                     (Inr (), setWindowsEnvironmentVariable (envVarOf config) (token config)
                                (setWindowsEnvironmentVariable ''ANTHROPIC_BASE_URL'' (url config) st1))
                 | Some pf \<Rightarrow> updateWindowsPowerShellConfig config pf st1)
              else
                (case profileFile of
                   None \<Rightarrow> (Inl EmptyPath, st1)
                 | Some pf \<Rightarrow> updateUnixShellConfig config pf st1)))"

section \<open>ConfigManager: the current configuration\<close>

definition setCurrentConfig :: "Config \<Rightarrow> state \<Rightarrow> (error + unit) \<times> state" where
  "setCurrentConfig config st =
     (case writeFileSync CurrentFile (configLine config) st of
        Inl e \<Rightarrow> (Inl e, st)
      | Inr st1 \<Rightarrow>
          (case updateClaudeSettings (token config) (url config) st1 of
             (Inr _, st2) \<Rightarrow> (Inr (), st2)
           | (Inl _, st2) \<Rightarrow> updateShellConfig config st2))"

definition getCurrentConfig :: "state \<Rightarrow> CurrentConfig option" where
  "getCurrentConfig st =
     (case files st CurrentFile of
        None \<Rightarrow> None
      | Some content \<Rightarrow>
          (let parts = split BAR content;
               ty = orElse (nth_opt parts 4) ''TOKEN'';
               envVar = (if ty = ''KEY'' then ''ANTHROPIC_API_KEY'' else ''ANTHROPIC_AUTH_TOKEN'');
               active = (env st envVar = nth_opt parts 2 \<and> env st ''ANTHROPIC_BASE_URL'' = nth_opt parts 3)
           in Some \<lparr>alias' = nth_opt parts 0, name = nth_opt parts 1, token = nth_opt parts 2,
                    url = nth_opt parts 3, type = Some ty, isActive = active\<rparr>))"

section \<open>Reading the settings document\<close>

text \<open>\<^verbatim>\<open>doc[k]\<close> for a document that is an object; nothing for any other document.\<close>

definition jsonMember :: "json \<Rightarrow> string \<Rightarrow> json option" where
  "jsonMember doc k = (case doc of JObj members \<Rightarrow> map_of members k | _ \<Rightarrow> None)"

text \<open>\<^verbatim>\<open>doc.env[k]\<close>.\<close>

definition envEntry :: "json \<Rightarrow> string \<Rightarrow> json option" where
  "envEntry doc k = (case jsonMember doc ''env'' of None \<Rightarrow> None | Some e \<Rightarrow> jsonMember e k)"

text \<open>The member \<^verbatim>\<open>env\<close> is there and is an object.\<close>

definition envIsObject :: "json \<Rightarrow> bool" where
  "envIsObject doc = (case jsonMember doc ''env'' of Some (JObj e) \<Rightarrow> True | _ \<Rightarrow> False)"

text \<open>The entry \<^verbatim>\<open>env.ANTHROPIC_API_KEY\<close> of the settings file, if the file has one.\<close>

definition settingsApiKey :: "state \<Rightarrow> json option" where
  "settingsApiKey st =
     (case settings st of Some (Parsed d) \<Rightarrow> envEntry d ''ANTHROPIC_API_KEY'' | _ \<Rightarrow> None)"

section \<open>Profiles that survive the record line\<close>

text \<open>No field, as it is printed in the record line, contains the field separator.\<close>

definition barFree :: "Config \<Rightarrow> bool" where
  "barFree config =
     (BAR \<notin> set (toStr (alias' config)) \<and> BAR \<notin> set (toStr (name config))
      \<and> BAR \<notin> set (toStr (token config)) \<and> BAR \<notin> set (toStr (url config))
      \<and> BAR \<notin> set (orElse (type config) ''TOKEN''))"

section \<open>Example inputs\<close>

text \<open>A fresh Unix host: no files, an empty environment, every path writable.\<close>

definition emptyState :: state where
  "emptyState = \<lparr>files = Map.empty, directories = {}, settings = None, env = Map.empty, userEnv = Map.empty,
                  platform = ''linux'', unwritable = {}, setxFails = False\<rparr>"

text \<open>The same host with a settings file that cannot be written.\<close>

definition lockedSettingsState :: state where
  "lockedSettingsState = emptyState\<lparr>unwritable := {SettingsFile}\<rparr>"

definition kimi :: Config where
  "kimi = \<lparr>alias' = Some ''kimi'', name = Some ''Claude'', token = Some ''sk-xxx'',
            url = Some ''https://api.moonshot.cn/anthropic'', type = Some ''TOKEN''\<rparr>"

text \<open>A host whose profile list holds the one profile above.\<close>

definition kimiStore :: state where
  "kimiStore = emptyState\<lparr>files := [ConfigFile \<mapsto> ''kimi|Claude|sk-xxx|https://api.moonshot.cn/anthropic|TOKEN'']\<rparr>"

text \<open>A profile whose display name contains the field separator.\<close>

definition kimiBar :: Config where
  "kimiBar = \<lparr>alias' = Some ''kimi'', name = Some ''Cl|aude'', token = Some ''sk-xxx'',
               url = Some ''https://api.moonshot.cn/anthropic'', type = Some ''TOKEN''\<rparr>"

text \<open>A host whose profile list has a complete line and a line of two fields.\<close>

definition shortLineStore :: state where
  "shortLineStore = emptyState\<lparr>files := [ConfigFile \<mapsto> ''a|x|y|z'' @ [LF] @ ''b|c'']\<rparr>"

text \<open>A host whose settings file has an array for \<^verbatim>\<open>env\<close>.\<close>

definition arrayEnvState :: state where
  "arrayEnvState = emptyState\<lparr>settings := Some (Parsed (JObj [(''env'', JArr [])]))\<rparr>"



section \<open>Kind resolution\<close>

lemma toLowerCase_TOKEN: "toLowerCase ''TOKEN'' = ''token''"
  by code_simp

text \<open>
  C3. The resolver maps the key mirror URL to KEY and the token URL to TOKEN when no
  override is given; an override that is key or k after case normalisation gives KEY for
  every URL, one that is token or t gives TOKEN for every URL; any other override is
  ignored and the URL lists decide; a URL in neither list gives TOKEN.
\<close>

theorem determineKeyType_resolution:
  "determineKeyType ''https://api.aicodemirror.com/api/claudecode'' None = ''KEY''
   \<and> determineKeyType ''https://api.aicodewith.com'' None = ''TOKEN''
   \<and> (toLowerCase m \<in> {''key'', ''k''} \<longrightarrow> determineKeyType u (Some m) = ''KEY'')
   \<and> (toLowerCase m \<in> {''token'', ''t''} \<longrightarrow> determineKeyType u (Some m) = ''TOKEN'')
   \<and> (toLowerCase m \<notin> {''key'', ''k'', ''token'', ''t''} \<longrightarrow>
        determineKeyType u (Some m) = determineKeyType u None)
   \<and> (u \<notin> set tokenUrls \<and> u \<notin> set keyUrls \<longrightarrow> determineKeyType u None = ''TOKEN'')
   \<and> (u \<notin> set tokenUrls \<and> u \<notin> set keyUrls \<and> toLowerCase m \<notin> {''key'', ''k'', ''token'', ''t''}
        \<longrightarrow> determineKeyType u (Some m) = ''TOKEN'')
   \<and> (u \<in> set tokenUrls \<longrightarrow> determineKeyType u None = ''TOKEN'')
   \<and> (u \<in> set keyUrls \<longrightarrow> determineKeyType u None = ''KEY'')"
  by (auto simp: determineKeyType_def Let_def toLowerCase_def tokenUrls_def keyUrls_def)

theorem determineKeyType_resolution_witness:
  "toLowerCase ''TOKEN'' \<in> {''token'', ''t''}
   \<and> determineKeyType ''https://api.aicodemirror.com/api/claudecode'' (Some ''TOKEN'') = ''TOKEN''
   \<and> ''https://unknown.example.com'' \<notin> set tokenUrls
   \<and> ''https://unknown.example.com'' \<notin> set keyUrls
   \<and> determineKeyType ''https://unknown.example.com'' None = ''TOKEN''"
  using determineKeyType_resolution [of "''TOKEN''" "''https://api.aicodemirror.com/api/claudecode''"]
    determineKeyType_resolution [of "''TOKEN''" "''https://unknown.example.com''"]
  by (simp add: toLowerCase_TOKEN tokenUrls_def keyUrls_def)

section \<open>Splitting lines and reading the pointer back\<close>

lemma split_nonempty: "split c s \<noteq> []"
  by (induction s) (auto split: list.splits)

lemma split_no_sep: "c \<notin> set s \<Longrightarrow> split c s = [s]"
  by (induction s) auto

lemma split_append_sep: "split c (xs @ c # ys) = split c xs @ split c ys"
proof (induction xs)
  case Nil
  then show ?case by simp
next
  case (Cons x xs)
  then show ?case
    using split_nonempty [of c xs] by (cases "split c xs") auto
qed

lemma split_parts_free: "p \<in> set (split c s) \<Longrightarrow> c \<notin> set p"
  by (induction s arbitrary: p) (auto split: if_splits list.splits)

lemma split_parts_subset: "p \<in> set (split c s) \<Longrightarrow> set p \<subseteq> set s"
proof (induction s arbitrary: p)
  case Nil
  then show ?case by simp
next
  case (Cons x xs)
  obtain y ys where s: "split c xs = y # ys"
    using split_nonempty [of c xs] by (cases "split c xs") auto
  have y: "set y \<subseteq> set xs" using Cons.IH [of y] s by simp
  have ys: "\<And>q. q \<in> set ys \<Longrightarrow> set q \<subseteq> set xs" using Cons.IH s by simp
  show ?case
    using Cons.prems s y ys by (auto split: if_splits)
qed

lemma split_five:
  assumes "c \<notin> set a" "c \<notin> set n" "c \<notin> set t" "c \<notin> set u" "c \<notin> set k"
  shows "split c (a @ [c] @ n @ [c] @ t @ [c] @ u @ [c] @ k) = [a, n, t, u, k]"
  using assms by (simp add: split_append_sep split_no_sep)

lemma split_configLine:
  "barFree P \<Longrightarrow> split BAR (configLine P) =
     [toStr (alias' P), toStr (name P), toStr (token P), toStr (url P), orElse (type P) ''TOKEN'']"
  unfolding configLine_def barFree_def by (intro split_five) simp_all

lemma orElse_nonempty: "d \<noteq> [] \<Longrightarrow> orElse v d \<noteq> []"
  by (auto simp: orElse_def split: option.splits)

lemma orElse_idem: "d \<noteq> [] \<Longrightarrow> orElse (Some (orElse v d)) d = orElse v d"
  by (auto simp: orElse_def split: option.splits)

lemma orElse_KEY: "orElse v ''TOKEN'' = ''KEY'' \<longleftrightarrow> v = Some ''KEY''"
  by (auto simp: orElse_def split: option.splits)

lemma getCurrentConfig_of_line:
  assumes "files st CurrentFile = Some (configLine P)" and "barFree P"
  shows "getCurrentConfig st =
     Some \<lparr>alias' = Some (toStr (alias' P)), name = Some (toStr (name P)),
           token = Some (toStr (token P)), url = Some (toStr (url P)),
           type = Some (orElse (type P) ''TOKEN''),
           isActive = (env st (envVarOf P) = Some (toStr (token P))
                       \<and> env st ''ANTHROPIC_BASE_URL'' = Some (toStr (url P)))\<rparr>"
  using assms
  by (simp add: getCurrentConfig_def split_configLine nth_opt_def Let_def orElse_idem
      orElse_KEY envVarOf_def)



section \<open>The profile list: adding\<close>

lemma parseConfigs_Nil: "parseConfigs [] = []"
  by (simp add: parseConfigs_def trimTruthy_def)

lemma getAllConfigs_exists:
  "files st ConfigFile = Some content \<Longrightarrow> getAllConfigs st = (Inr (parseConfigs content), st)"
  by (simp add: getAllConfigs_def initConfig_def existsSync_def readFileSync_def)

lemma getAllConfigs_absent:
  "files st ConfigFile = None \<Longrightarrow> ConfigFile \<notin> unwritable st \<Longrightarrow>
     getAllConfigs st = (Inr [], st\<lparr>files := (files st)(ConfigFile \<mapsto> [])\<rparr>)"
  by (simp add: getAllConfigs_def initConfig_def existsSync_def readFileSync_def writeFileSync_def
      parseConfigs_Nil)

lemma getAllConfigs_absent_unwritable:
  "files st ConfigFile = None \<Longrightarrow> ConfigFile \<in> unwritable st \<Longrightarrow>
     getAllConfigs st = (Inl (WriteFailed ConfigFile), st)"
  by (simp add: getAllConfigs_def initConfig_def existsSync_def writeFileSync_def)

lemma getAllConfigs_stored:
  "getAllConfigs st = (Inr cs, st') \<Longrightarrow>
     cs = storedConfigs st \<and> storedConfigs st' = storedConfigs st \<and> unwritable st' = unwritable st
     \<and> files st' ConfigFile \<noteq> None \<and> (\<forall>p. p \<noteq> ConfigFile \<longrightarrow> files st' p = files st p)
     \<and> (files st ConfigFile \<noteq> None \<longrightarrow> st' = st)"
  by (cases "files st ConfigFile"; cases "ConfigFile \<in> unwritable st")
     (auto simp: getAllConfigs_exists getAllConfigs_absent getAllConfigs_absent_unwritable
        storedConfigs_def parseConfigs_Nil)

lemma getAllConfigs_writable:
  "ConfigFile \<notin> unwritable st \<Longrightarrow> \<exists>st'. getAllConfigs st = (Inr (storedConfigs st), st')"
  by (cases "files st ConfigFile")
     (auto simp: getAllConfigs_exists getAllConfigs_absent storedConfigs_def)

lemma isWhitespace_BAR: "\<not> isWhitespace BAR"
  by (simp add: isWhitespace_def)

lemma trimTruthy_BAR: "BAR \<in> set l \<Longrightarrow> trimTruthy l"
  using isWhitespace_BAR by (auto simp: trimTruthy_def list_all_iff)

lemma parseConfigs_append:
  "LF \<notin> set l \<Longrightarrow> trimTruthy l \<Longrightarrow> parseConfigs (c @ LF # l) = parseConfigs c @ [parseLine l]"
  by (simp add: parseConfigs_def split_append_sep split_no_sep)

lemma parseLine_five:
  assumes "BAR \<notin> set a" "BAR \<notin> set n" "BAR \<notin> set t" "BAR \<notin> set u" "BAR \<notin> set k"
  shows "parseLine (a @ [BAR] @ n @ [BAR] @ t @ [BAR] @ u @ [BAR] @ k) =
     \<lparr>alias' = Some a, name = Some n, token = Some t, url = Some u,
      type = Some (orElse (Some k) ''TOKEN'')\<rparr>"
proof -
  have sp: "split BAR (a @ [BAR] @ n @ [BAR] @ t @ [BAR] @ u @ [BAR] @ k) = [a, n, t, u, k]"
    by (rule split_five) fact+
  show ?thesis unfolding parseLine_def sp by (simp add: nth_opt_def)
qed

text \<open>
  C4, as amended. When a stored profile has the alias, \<^verbatim>\<open>addConfig\<close> fails with the
  duplicate-alias error and leaves the whole state, the profile-list file included,
  unchanged. When no stored profile has the alias, the profile-list file can be written and
  no argument contains a line feed, \<^verbatim>\<open>addConfig\<close> succeeds and the stored profiles are
  the previous ones followed by exactly one record, the one parsed from the new line; when
  no argument contains the field separator either, that record has the given fields.
\<close>

theorem addConfig_store:
  "((\<exists>c\<in>set (storedConfigs st). alias' c = Some a) \<longrightarrow>
      addConfig a n t u k st = (Inl (DuplicateAlias a), st))
   \<and> ((\<forall>c\<in>set (storedConfigs st). alias' c \<noteq> Some a) \<and> ConfigFile \<notin> unwritable st
        \<and> LF \<notin> set a \<union> set n \<union> set t \<union> set u \<union> set (orElse k ''TOKEN'') \<longrightarrow>
      (\<exists>st'. addConfig a n t u k st = (Inr (), st')
         \<and> storedConfigs st' = storedConfigs st
              @ [parseLine (a @ [BAR] @ n @ [BAR] @ t @ [BAR] @ u @ [BAR] @ orElse k ''TOKEN'')]
         \<and> (BAR \<notin> set a \<union> set n \<union> set t \<union> set u \<union> set (orElse k ''TOKEN'') \<longrightarrow>
              storedConfigs st' = storedConfigs st
                @ [\<lparr>alias' = Some a, name = Some n, token = Some t, url = Some u,
                     type = Some (orElse k ''TOKEN'')\<rparr>])))"
proof (intro conjI impI)
  assume "\<exists>c\<in>set (storedConfigs st). alias' c = Some a"
  then obtain content where c: "files st ConfigFile = Some content"
    and ex: "\<exists>c\<in>set (parseConfigs content). alias' c = Some a"
    by (cases "files st ConfigFile") (auto simp: storedConfigs_def)
  from ex have "find (\<lambda>config. alias' config = Some a) (parseConfigs content) \<noteq> None"
    by (auto simp: find_None_iff)
  then show "addConfig a n t u k st = (Inl (DuplicateAlias a), st)"
    by (auto simp: addConfig_def getAllConfigs_exists [OF c])
next
  let ?line = "a @ [BAR] @ n @ [BAR] @ t @ [BAR] @ u @ [BAR] @ orElse k ''TOKEN''"
  assume h: "(\<forall>c\<in>set (storedConfigs st). alias' c \<noteq> Some a) \<and> ConfigFile \<notin> unwritable st
        \<and> LF \<notin> set a \<union> set n \<union> set t \<union> set u \<union> set (orElse k ''TOKEN'')"
  obtain st1 where g: "getAllConfigs st = (Inr (storedConfigs st), st1)"
    using getAllConfigs_writable h by blast
  note s = getAllConfigs_stored [OF g]
  from s obtain content where c: "files st1 ConfigFile = Some content" by auto
  have nf: "find (\<lambda>config. alias' config = Some a) (storedConfigs st) = None"
    using h by (auto simp: find_None_iff)
  let ?st' = "st1\<lparr>files := (files st1)(ConfigFile \<mapsto> content @ LF # ?line)\<rparr>"
  have r: "addConfig a n t u k st = (Inr (), ?st')"
    using h s c by (simp add: addConfig_def g nf appendFileSync_def)
  have lf: "LF \<notin> set ?line" using h by simp
  have tt: "trimTruthy ?line" by (rule trimTruthy_BAR) simp
  have pc: "parseConfigs content = storedConfigs st"
    using s c by (simp add: storedConfigs_def)
  have "storedConfigs ?st' = parseConfigs (content @ LF # ?line)"
    by (simp add: storedConfigs_def)
  also have "\<dots> = parseConfigs content @ [parseLine ?line]"
    by (rule parseConfigs_append [OF lf tt])
  finally have st: "storedConfigs ?st' = storedConfigs st @ [parseLine ?line]"
    by (simp only: pc)
  have pl: "parseLine ?line = \<lparr>alias' = Some a, name = Some n, token = Some t, url = Some u,
                     type = Some (orElse k ''TOKEN'')\<rparr>"
    if "BAR \<notin> set a \<union> set n \<union> set t \<union> set u \<union> set (orElse k ''TOKEN'')"
    using that parseLine_five [of a n t u "orElse k ''TOKEN''"] by (simp add: orElse_idem)
  show "\<exists>st'. addConfig a n t u k st = (Inr (), st')
         \<and> storedConfigs st' = storedConfigs st @ [parseLine ?line]
         \<and> (BAR \<notin> set a \<union> set n \<union> set t \<union> set u \<union> set (orElse k ''TOKEN'') \<longrightarrow>
              storedConfigs st' = storedConfigs st
                @ [\<lparr>alias' = Some a, name = Some n, token = Some t, url = Some u,
                     type = Some (orElse k ''TOKEN'')\<rparr>])"
    using r st pl by auto
qed


lemma storedConfigs_emptyState: "storedConfigs emptyState = []"
  by (simp add: storedConfigs_def emptyState_def)

lemma parseConfigs_kimi_line:
  "parseConfigs ''kimi|Claude|sk-xxx|https://api.moonshot.cn/anthropic|TOKEN'' = [kimi]"
  by code_simp

lemma storedConfigs_kimiStore: "storedConfigs kimiStore = [kimi]"
  by (simp add: storedConfigs_def kimiStore_def parseConfigs_kimi_line)

text \<open>
  C4 as stated fails: with a line feed inside the secret, one call on an empty store
  succeeds and leaves two records.
\<close>

theorem addConfig_store_counterexample:
  "storedConfigs emptyState = []
   \<and> fst (addConfig ''a'' ''Claude'' [CHR ''x'', LF, CHR ''b''] ''u'' None emptyState) = Inr ()
   \<and> length (storedConfigs (snd (addConfig ''a'' ''Claude'' [CHR ''x'', LF, CHR ''b''] ''u'' None emptyState))) = 2"
  by (simp add: storedConfigs_def emptyState_def addConfig_def getAllConfigs_def initConfig_def
      existsSync_def readFileSync_def writeFileSync_def appendFileSync_def parseConfigs_def
      trimTruthy_def isWhitespace_def orElse_def)

theorem addConfig_store_witness:
  "(\<exists>c\<in>set (storedConfigs kimiStore). alias' c = Some ''kimi'')
   \<and> addConfig ''kimi'' ''Claude'' ''sk-yyy'' ''https://api.aicodewith.com'' None kimiStore
       = (Inl (DuplicateAlias ''kimi''), kimiStore)
   \<and> storedConfigs emptyState = []
   \<and> ConfigFile \<notin> unwritable emptyState
   \<and> (\<exists>st'. addConfig ''kimi'' ''Claude'' ''sk-xxx'' ''https://api.moonshot.cn/anthropic'' None emptyState
               = (Inr (), st')
         \<and> storedConfigs st' = [kimi])"
proof -
  have d: "\<exists>c\<in>set (storedConfigs kimiStore). alias' c = Some ''kimi''"
    by (simp add: storedConfigs_kimiStore kimi_def)
  have e: "\<forall>c\<in>set (storedConfigs emptyState). alias' c \<noteq> Some ''kimi''"
    by (simp add: storedConfigs_emptyState)
  have w: "ConfigFile \<notin> unwritable emptyState" by (simp add: emptyState_def)
  have lf: "LF \<notin> set ''kimi'' \<union> set ''Claude'' \<union> set ''sk-xxx''
              \<union> set ''https://api.moonshot.cn/anthropic'' \<union> set (orElse None ''TOKEN'')"
    by (simp add: orElse_def)
  have bar: "BAR \<notin> set ''kimi'' \<union> set ''Claude'' \<union> set ''sk-xxx''
              \<union> set ''https://api.moonshot.cn/anthropic'' \<union> set (orElse None ''TOKEN'')"
    by (simp add: orElse_def)
  have k: "\<lparr>alias' = Some ''kimi'', name = Some ''Claude'', token = Some ''sk-xxx'',
            url = Some ''https://api.moonshot.cn/anthropic'', type = Some (orElse None ''TOKEN'')\<rparr> = kimi"
    by (simp add: kimi_def orElse_def)
  have A: "addConfig ''kimi'' ''Claude'' ''sk-yyy'' ''https://api.aicodewith.com'' None kimiStore
       = (Inl (DuplicateAlias ''kimi''), kimiStore)"
    using addConfig_store [of kimiStore "''kimi''" "''Claude''" "''sk-yyy''" "''https://api.aicodewith.com''" None] d
    by blast
  have "\<exists>st'. addConfig ''kimi'' ''Claude'' ''sk-xxx'' ''https://api.moonshot.cn/anthropic'' None emptyState
               = (Inr (), st')
         \<and> storedConfigs st' = storedConfigs emptyState
              @ [\<lparr>alias' = Some ''kimi'', name = Some ''Claude'', token = Some ''sk-xxx'',
                   url = Some ''https://api.moonshot.cn/anthropic'', type = Some (orElse None ''TOKEN'')\<rparr>]"
    using addConfig_store [of emptyState "''kimi''" "''Claude''" "''sk-xxx''" "''https://api.moonshot.cn/anthropic''" None]
      e w lf bar
    by blast
  then have B: "\<exists>st'. addConfig ''kimi'' ''Claude'' ''sk-xxx'' ''https://api.moonshot.cn/anthropic'' None emptyState
               = (Inr (), st') \<and> storedConfigs st' = [kimi]"
    by (simp only: k storedConfigs_emptyState append_Nil)
  from d A storedConfigs_emptyState w B show ?thesis by blast
qed

section \<open>Activation and the process environment\<close>

lemma updateClaudeSettings_frame:
  "updateClaudeSettings t b st = (r, st') \<Longrightarrow>
     files st' = files st \<and> env st' = env st \<and> userEnv st' = userEnv st
     \<and> platform st' = platform st \<and> unwritable st' = unwritable st
     \<and> directories st' = directories st \<and> setxFails st' = setxFails st"
  by (auto simp: updateClaudeSettings_def writeClaudeSettings_def split: sum.splits if_splits)

lemma updateClaudeSettings_Inl:
  "updateClaudeSettings t b st = (Inl e, st') \<Longrightarrow> st' = st"
  by (auto simp: updateClaudeSettings_def writeClaudeSettings_def split: sum.splits if_splits)

lemma updateClaudeSettings_files_irrelevant:
  "fst (updateClaudeSettings t b (st\<lparr>files := f\<rparr>)) = fst (updateClaudeSettings t b st)"
  by (auto simp: updateClaudeSettings_def writeClaudeSettings_def readClaudeSettings_def
      split: sum.splits if_splits)

lemma getProfileFile_frame:
  assumes "getProfileFile st = (r, st0)"
  shows "files st0 = files st" and "env st0 = env st" and "settings st0 = settings st"
    and "unwritable st0 = unwritable st" and "platform st0 = platform st"
proof -
  have "st0 = st \<or> st0 = st\<lparr>directories := insert PowerShellDir (directories st)\<rparr>"
    using assms
    by (simp add: getProfileFile_def Let_def mkdirSync_def split: if_splits)
  then show "files st0 = files st" and "env st0 = env st" and "settings st0 = settings st"
    and "unwritable st0 = unwritable st" and "platform st0 = platform st"
    by auto
qed

lemma getProfileFile_path:
  assumes "getProfileFile st = (Inr (Some p), st0)"
  shows "p \<noteq> ConfigFile" and "p \<noteq> CurrentFile"
  using assms
  by (auto simp: getProfileFile_def Let_def mkdirSync_def split: if_splits)


lemma setCurrentSessionEnvironmentVariables_frame:
  "files (setCurrentSessionEnvironmentVariables P st) = files st"
  "settings (setCurrentSessionEnvironmentVariables P st) = settings st"
  "unwritable (setCurrentSessionEnvironmentVariables P st) = unwritable st"
  "env (setCurrentSessionEnvironmentVariables P st) =
     ((env st)(''ANTHROPIC_AUTH_TOKEN'' := None, ''ANTHROPIC_API_KEY'' := None))
       (envVarOf P \<mapsto> toStr (token P), ''ANTHROPIC_BASE_URL'' \<mapsto> toStr (url P))"
  by (simp_all add: setCurrentSessionEnvironmentVariables_def Let_def)

lemma setWindowsEnvironmentVariable_frame:
  "files (setWindowsEnvironmentVariable k v st) = files st"
  "settings (setWindowsEnvironmentVariable k v st) = settings st"
  "unwritable (setWindowsEnvironmentVariable k v st) = unwritable st"
  "env (setWindowsEnvironmentVariable k v st) = env st"
  by (simp_all add: setWindowsEnvironmentVariable_def)

lemma updateUnixShellConfig_frame:
  assumes "updateUnixShellConfig P pf st = (r, st')"
  shows "env st' = env st" and "settings st' = settings st" and "unwritable st' = unwritable st"
    and "p \<noteq> pf \<Longrightarrow> files st' p = files st p"
  using assms
  by (auto simp: updateUnixShellConfig_def Let_def writeFileSync_def split: if_splits)

lemma updateWindowsPowerShellConfig_frame:
  assumes "updateWindowsPowerShellConfig P pf st = (r, st')"
  shows "env st' = env st" and "settings st' = settings st" and "unwritable st' = unwritable st"
    and "p \<noteq> pf \<Longrightarrow> files st' p = files st p"
  using assms
  by (auto simp: updateWindowsPowerShellConfig_def Let_def writeFileSync_def split: if_splits)

text \<open>What the fallback leaves when \<^verbatim>\<open>getProfileFile\<close> has returned.\<close>

lemma updateShellConfig_after_profile:
  assumes g: "getProfileFile st = (Inr pf, st0)"
    and u: "updateShellConfig P st = (r, st')"
  shows "env st' = ((env st)(''ANTHROPIC_AUTH_TOKEN'' := None, ''ANTHROPIC_API_KEY'' := None))
           (envVarOf P \<mapsto> toStr (token P), ''ANTHROPIC_BASE_URL'' \<mapsto> toStr (url P))"
    and "settings st' = settings st" and "unwritable st' = unwritable st"
    and "files st' ConfigFile = files st ConfigFile"
    and "files st' CurrentFile = files st CurrentFile"
proof -
  define st1 where "st1 = setCurrentSessionEnvironmentVariables P st0"
  note f0 = getProfileFile_frame [OF g]
  have f1: "files st1 = files st" "settings st1 = settings st" "unwritable st1 = unwritable st"
    "env st1 = ((env st)(''ANTHROPIC_AUTH_TOKEN'' := None, ''ANTHROPIC_API_KEY'' := None))
           (envVarOf P \<mapsto> toStr (token P), ''ANTHROPIC_BASE_URL'' \<mapsto> toStr (url P))"
    by (simp_all add: st1_def setCurrentSessionEnvironmentVariables_frame f0)
  consider
      (setx) "st' = setWindowsEnvironmentVariable (envVarOf P) (token P)
                     (setWindowsEnvironmentVariable ''ANTHROPIC_BASE_URL'' (url P) st1)"
    | (ps) p where "pf = Some p" "updateWindowsPowerShellConfig P p st1 = (r, st')"
    | (empty) "st' = st1"
    | (unix) p where "pf = Some p" "updateUnixShellConfig P p st1 = (r, st')"
    using u unfolding updateShellConfig_def g st1_def [symmetric]
    by (simp add: Let_def st1_def [symmetric] split: if_splits option.splits)
  then have "env st' = env st1 \<and> settings st' = settings st1 \<and> unwritable st' = unwritable st1
     \<and> files st' ConfigFile = files st1 ConfigFile \<and> files st' CurrentFile = files st1 CurrentFile"
  proof cases
    case setx
    then show ?thesis by (simp add: setWindowsEnvironmentVariable_frame)
  next
    case ps
    from getProfileFile_path [OF g [unfolded ps(1)]] updateWindowsPowerShellConfig_frame [OF ps(2)]
    show ?thesis by simp
  next
    case empty
    then show ?thesis by simp
  next
    case unix
    from getProfileFile_path [OF g [unfolded unix(1)]] updateUnixShellConfig_frame [OF unix(2)]
    show ?thesis by simp
  qed
  with f1 show "env st' = ((env st)(''ANTHROPIC_AUTH_TOKEN'' := None, ''ANTHROPIC_API_KEY'' := None))
           (envVarOf P \<mapsto> toStr (token P), ''ANTHROPIC_BASE_URL'' \<mapsto> toStr (url P))"
    and "settings st' = settings st" and "unwritable st' = unwritable st"
    and "files st' ConfigFile = files st ConfigFile"
    and "files st' CurrentFile = files st CurrentFile"
    by simp_all
qed

lemma updateShellConfig_profile_fails:
  assumes "getProfileFile st = (Inl e, st0)"
  shows "updateShellConfig P st = (Inl e, st)"
proof -
  have "st0 = st"
    using assms by (simp add: getProfileFile_def Let_def mkdirSync_def split: if_splits)
  with assms show ?thesis by (simp add: updateShellConfig_def)
qed

lemma updateShellConfig_Inr:
  assumes "updateShellConfig P st = (Inr u, st')"
  shows "\<exists>pf st0. getProfileFile st = (Inr pf, st0)"
proof (cases "getProfileFile st")
  case (Pair r0 st0)
  show ?thesis
  proof (cases r0)
    case (Inl e)
    with Pair assms show ?thesis by (simp add: updateShellConfig_profile_fails)
  next
    case (Inr pf)
    with Pair show ?thesis by blast
  qed
qed


text \<open>The two ways in which \<^verbatim>\<open>setCurrentConfig\<close> returns successfully.\<close>

lemma setCurrentConfig_success:
  assumes "setCurrentConfig P st = (Inr (), st')"
  obtains (settings_path) st1 where "st1 = st\<lparr>files := (files st)(CurrentFile \<mapsto> configLine P)\<rparr>"
      and "CurrentFile \<notin> unwritable st"
      and "fst (updateClaudeSettings (token P) (url P) st) = Inr ()"
      and "updateClaudeSettings (token P) (url P) st1 = (Inr (), st')"
    | (fallback) e st1 where "st1 = st\<lparr>files := (files st)(CurrentFile \<mapsto> configLine P)\<rparr>"
      and "CurrentFile \<notin> unwritable st"
      and "fst (updateClaudeSettings (token P) (url P) st) = Inl e"
      and "updateShellConfig P st1 = (Inr (), st')"
proof -
  let ?st1 = "st\<lparr>files := (files st)(CurrentFile \<mapsto> configLine P)\<rparr>"
  have w: "CurrentFile \<notin> unwritable st"
    using assms by (auto simp: setCurrentConfig_def writeFileSync_def split: if_splits)
  obtain r2 st2 where u: "updateClaudeSettings (token P) (url P) ?st1 = (r2, st2)"
    by (cases "updateClaudeSettings (token P) (url P) ?st1") auto
  have "fst (updateClaudeSettings (token P) (url P) ?st1)
          = fst (updateClaudeSettings (token P) (url P) st)"
    by (rule updateClaudeSettings_files_irrelevant)
  then have fu: "fst (updateClaudeSettings (token P) (url P) st) = r2"
    by (simp only: u fst_conv)
  show thesis
  proof (cases r2)
    case (Inr x)
    then have "st' = st2"
      using assms u w by (simp add: setCurrentConfig_def writeFileSync_def)
    with Inr u fu w show thesis by (intro settings_path [of ?st1]) simp_all
  next
    case (Inl e)
    then have "st2 = ?st1" using u updateClaudeSettings_Inl by blast
    then have "updateShellConfig P ?st1 = (Inr (), st')"
      using assms u w Inl by (simp add: setCurrentConfig_def writeFileSync_def)
    with Inl fu w show thesis by (intro fallback [of ?st1 e]) simp_all
  qed
qed

lemma setCurrentConfig_frame:
  assumes "setCurrentConfig P st = (Inr (), st')"
  shows "files st' CurrentFile = Some (configLine P)"
    and "files st' ConfigFile = files st ConfigFile"
    and "unwritable st' = unwritable st"
    and "CurrentFile \<notin> unwritable st"
proof -
  have "files st' CurrentFile = Some (configLine P) \<and> files st' ConfigFile = files st ConfigFile
        \<and> unwritable st' = unwritable st \<and> CurrentFile \<notin> unwritable st"
    using assms
  proof (cases rule: setCurrentConfig_success)
    case (settings_path st1)
    from updateClaudeSettings_frame [OF settings_path(4)] settings_path(1,2)
    show ?thesis by simp
  next
    case (fallback e st1)
    from updateShellConfig_Inr [OF fallback(4)] obtain pf st0
      where g: "getProfileFile st1 = (Inr pf, st0)" by blast
    from updateShellConfig_after_profile(3,4,5) [OF g fallback(4)] fallback(1,2)
    show ?thesis by simp
  qed
  then show "files st' CurrentFile = Some (configLine P)"
    and "files st' ConfigFile = files st ConfigFile"
    and "unwritable st' = unwritable st"
    and "CurrentFile \<notin> unwritable st" by simp_all
qed

lemma setCurrentConfig_env_fallback:
  assumes "setCurrentConfig P st = (Inr (), st')"
    and "fst (updateClaudeSettings (token P) (url P) st) = Inl e"
  shows "env st' = ((env st)(''ANTHROPIC_AUTH_TOKEN'' := None, ''ANTHROPIC_API_KEY'' := None))
           (envVarOf P \<mapsto> toStr (token P), ''ANTHROPIC_BASE_URL'' \<mapsto> toStr (url P))"
  using assms(1)
proof (cases rule: setCurrentConfig_success)
  case (settings_path st1)
  with assms(2) show ?thesis by simp
next
  case (fallback e' st1)
  from updateShellConfig_Inr [OF fallback(4)] obtain pf st0
    where g: "getProfileFile st1 = (Inr pf, st0)" by blast
  from updateShellConfig_after_profile(1) [OF g fallback(4)] fallback(1)
  show ?thesis by simp
qed

lemma setCurrentConfig_env_settings:
  assumes "setCurrentConfig P st = (Inr (), st')"
    and "fst (updateClaudeSettings (token P) (url P) st) = Inr ()"
  shows "env st' = env st"
  using assms(1)
proof (cases rule: setCurrentConfig_success)
  case (settings_path st1)
  from updateClaudeSettings_frame [OF settings_path(4)] settings_path(1)
  show ?thesis by simp
next
  case (fallback e st1)
  with assms(2) show ?thesis by simp
qed

text \<open>
  C1, as amended. For every profile with a secret and a base URL, after
  \<^verbatim>\<open>setCurrentConfig\<close> has returned successfully: when the settings-file update threw, so
  that the shell fallback ran, the process environment has the variable of the profile's
  kind (\<^verbatim>\<open>ANTHROPIC_API_KEY\<close> for KEY, \<^verbatim>\<open>ANTHROPIC_AUTH_TOKEN\<close> otherwise) equal to the
  secret, the other credential variable absent, and \<^verbatim>\<open>ANTHROPIC_BASE_URL\<close> equal to the base
  URL; when the settings-file update succeeded, the process environment is as it was before
  the call.
\<close>

theorem setCurrentConfig_environment:
  assumes "setCurrentConfig P st = (Inr (), st')"
    and "token P = Some secret" and "url P = Some baseUrl"
  shows "(\<forall>e. fst (updateClaudeSettings (token P) (url P) st) = Inl e \<longrightarrow>
            (type P = Some ''KEY'' \<longrightarrow>
               env st' ''ANTHROPIC_API_KEY'' = Some secret
               \<and> env st' ''ANTHROPIC_AUTH_TOKEN'' = None)
          \<and> (type P \<noteq> Some ''KEY'' \<longrightarrow>
               env st' ''ANTHROPIC_AUTH_TOKEN'' = Some secret
               \<and> env st' ''ANTHROPIC_API_KEY'' = None)
          \<and> env st' ''ANTHROPIC_BASE_URL'' = Some baseUrl)
       \<and> (fst (updateClaudeSettings (token P) (url P) st) = Inr () \<longrightarrow> env st' = env st)"
proof (intro conjI allI impI)
  fix e assume f: "fst (updateClaudeSettings (token P) (url P) st) = Inl e"
  have E: "env st' = ((env st)(''ANTHROPIC_AUTH_TOKEN'' := None, ''ANTHROPIC_API_KEY'' := None))
       (envVarOf P \<mapsto> secret, ''ANTHROPIC_BASE_URL'' \<mapsto> baseUrl)"
    using setCurrentConfig_env_fallback [OF assms(1) f] assms(2,3) by (simp add: toStr_def)
  show "env st' ''ANTHROPIC_BASE_URL'' = Some baseUrl"
    by (simp add: E)
  { assume "type P = Some ''KEY''"
    then show "env st' ''ANTHROPIC_API_KEY'' = Some secret"
      and "env st' ''ANTHROPIC_AUTH_TOKEN'' = None"
      by (simp_all add: E envVarOf_def) }
  { assume "type P \<noteq> Some ''KEY''"
    then show "env st' ''ANTHROPIC_AUTH_TOKEN'' = Some secret"
      and "env st' ''ANTHROPIC_API_KEY'' = None"
      by (simp_all add: E envVarOf_def) }
next
  assume "fst (updateClaudeSettings (token P) (url P) st) = Inr ()"
  then show "env st' = env st"
    using setCurrentConfig_env_settings [OF assms(1)] by simp
qed


lemma updateClaudeSettings_emptyState:
  "fst (updateClaudeSettings (token kimi) (url kimi) emptyState) = Inr ()"
  by (simp add: updateClaudeSettings_def readClaudeSettings_def defaultSettings_def
      assignEnv_def setMember_def writeClaudeSettings_def kimi_def emptyState_def)

lemma updateClaudeSettings_lockedSettingsState:
  "fst (updateClaudeSettings (Some t) (Some b) lockedSettingsState) = Inl SettingsWriteFailed"
  by (simp add: updateClaudeSettings_def readClaudeSettings_def defaultSettings_def
      assignEnv_def setMember_def writeClaudeSettings_def lockedSettingsState_def
      emptyState_def)

lemma setCurrentConfig_emptyState:
  "setCurrentConfig kimi emptyState = (Inr (), snd (setCurrentConfig kimi emptyState))"
  by (simp add: setCurrentConfig_def writeFileSync_def updateClaudeSettings_def
      readClaudeSettings_def defaultSettings_def assignEnv_def setMember_def
      writeClaudeSettings_def kimi_def emptyState_def)

lemma getProfileFile_lockedSettingsState:
  "getProfileFile (lockedSettingsState\<lparr>files := f\<rparr>)
     = (Inr (Some DotProfile), lockedSettingsState\<lparr>files := f\<rparr>)"
  by (simp add: getProfileFile_def detectShell_def isWindows_def orElse_def truthy_def
      lockedSettingsState_def emptyState_def Let_def)

lemma setCurrentConfig_lockedSettingsState:
  "setCurrentConfig \<lparr>alias' = a, name = n, token = Some t, url = Some b, type = k\<rparr> lockedSettingsState
     = (Inr (), snd (setCurrentConfig \<lparr>alias' = a, name = n, token = Some t, url = Some b, type = k\<rparr>
                       lockedSettingsState))"
proof -
  let ?P = "\<lparr>alias' = a, name = n, token = Some t, url = Some b, type = k\<rparr>"
  let ?st1 = "lockedSettingsState\<lparr>files := (files lockedSettingsState)(CurrentFile \<mapsto> configLine ?P)\<rparr>"
  have w: "writeFileSync CurrentFile (configLine ?P) lockedSettingsState = Inr ?st1"
    by (simp add: writeFileSync_def lockedSettingsState_def emptyState_def)
  have "fst (updateClaudeSettings (Some t) (Some b) ?st1) = Inl SettingsWriteFailed"
    by (simp only: updateClaudeSettings_files_irrelevant updateClaudeSettings_lockedSettingsState)
  then have u: "updateClaudeSettings (Some t) (Some b) ?st1 = (Inl SettingsWriteFailed, ?st1)"
    using updateClaudeSettings_Inl [of "Some t" "Some b" ?st1 SettingsWriteFailed]
    by (cases "updateClaudeSettings (Some t) (Some b) ?st1") auto
  have g: "getProfileFile ?st1 = (Inr (Some DotProfile), ?st1)"
    by (rule getProfileFile_lockedSettingsState)
  have s: "fst (updateShellConfig ?P ?st1) = Inr ()"
    unfolding updateShellConfig_def g
    by (simp add: Let_def isWindows_def
        setCurrentSessionEnvironmentVariables_def updateUnixShellConfig_def writeFileSync_def
        lockedSettingsState_def emptyState_def)
  have "fst (setCurrentConfig ?P lockedSettingsState) = Inr ()"
    by (simp add: setCurrentConfig_def w u s)
  then show ?thesis by (simp add: prod_eq_iff)
qed

text \<open>
  C1 as stated fails: on a fresh host the settings file is written, activation returns
  successfully, and the process environment has neither the token nor the base URL.
\<close>

theorem setCurrentConfig_env_counterexample:
  "fst (setCurrentConfig kimi emptyState) = Inr ()
   \<and> type kimi = Some ''TOKEN''
   \<and> token kimi = Some ''sk-xxx''
   \<and> env (snd (setCurrentConfig kimi emptyState)) ''ANTHROPIC_AUTH_TOKEN'' = None
   \<and> env (snd (setCurrentConfig kimi emptyState)) ''ANTHROPIC_BASE_URL'' = None"
proof -
  have "env (snd (setCurrentConfig kimi emptyState)) = env emptyState"
    using setCurrentConfig_env_settings [OF setCurrentConfig_emptyState updateClaudeSettings_emptyState] .
  then show ?thesis
    using setCurrentConfig_emptyState by (simp add: emptyState_def kimi_def prod_eq_iff)
qed

theorem setCurrentConfig_environment_witness:
  "fst (setCurrentConfig kimi lockedSettingsState) = Inr ()
   \<and> token kimi = Some ''sk-xxx'' \<and> url kimi = Some ''https://api.moonshot.cn/anthropic''
   \<and> fst (updateClaudeSettings (token kimi) (url kimi) lockedSettingsState) = Inl SettingsWriteFailed
   \<and> type kimi \<noteq> Some ''KEY''
   \<and> env (snd (setCurrentConfig kimi lockedSettingsState)) ''ANTHROPIC_AUTH_TOKEN'' = Some ''sk-xxx''
   \<and> env (snd (setCurrentConfig kimi lockedSettingsState)) ''ANTHROPIC_API_KEY'' = None
   \<and> env (snd (setCurrentConfig kimi lockedSettingsState)) ''ANTHROPIC_BASE_URL''
        = Some ''https://api.moonshot.cn/anthropic''"
proof -
  have a: "setCurrentConfig kimi lockedSettingsState
             = (Inr (), snd (setCurrentConfig kimi lockedSettingsState))"
    unfolding kimi_def by (rule setCurrentConfig_lockedSettingsState)
  have t: "token kimi = Some ''sk-xxx''" and u: "url kimi = Some ''https://api.moonshot.cn/anthropic''"
    and c: "type kimi \<noteq> Some ''KEY''"
    by (simp_all add: kimi_def)
  have b: "fst (updateClaudeSettings (token kimi) (url kimi) lockedSettingsState) = Inl SettingsWriteFailed"
    by (simp only: t u updateClaudeSettings_lockedSettingsState)
  have r: "fst (setCurrentConfig kimi lockedSettingsState) = Inr ()"
    using a by (simp add: prod_eq_iff)
  from setCurrentConfig_environment [OF a t u] b c r t u show ?thesis by blast
qed


section \<open>Liveness of the current configuration\<close>

lemma getCurrentConfig_isActive:
  assumes "files st CurrentFile = Some line"
  shows "map_option isActive (getCurrentConfig st) =
     Some (env st (if orElse (nth_opt (split BAR line) 4) ''TOKEN'' = ''KEY''
                   then ''ANTHROPIC_API_KEY'' else ''ANTHROPIC_AUTH_TOKEN'') = nth_opt (split BAR line) 2
           \<and> env st ''ANTHROPIC_BASE_URL'' = nth_opt (split BAR line) 3)"
  using assms by (simp add: getCurrentConfig_def Let_def)

text \<open>
  C2, as amended. For every profile with a secret and a base URL whose fields contain no
  field separator, after \<^verbatim>\<open>setCurrentConfig\<close> has returned successfully: when the
  settings-file update threw, so that the shell fallback ran, \<^verbatim>\<open>getCurrentConfig\<close> reports
  \<open>isActive = true\<close>; when the settings-file update succeeded, it reports \<open>isActive\<close> true
  exactly if the process environment already held the secret and the base URL before the
  call; and on either path, once the credential variable of the profile's kind differs from
  the secret, it reports \<open>isActive = false\<close>.
\<close>

theorem getCurrentConfig_liveness:
  assumes "setCurrentConfig P st = (Inr (), st')" and "barFree P"
    and "token P = Some secret" and "url P = Some baseUrl"
  shows "(\<forall>e. fst (updateClaudeSettings (token P) (url P) st) = Inl e \<longrightarrow>
            map_option isActive (getCurrentConfig st') = Some True)
       \<and> (fst (updateClaudeSettings (token P) (url P) st) = Inr () \<longrightarrow>
            map_option isActive (getCurrentConfig st') =
              Some (env st (envVarOf P) = Some secret
                    \<and> env st ''ANTHROPIC_BASE_URL'' = Some baseUrl))
       \<and> (\<forall>e'. e' (envVarOf P) \<noteq> Some secret \<longrightarrow>
            map_option isActive (getCurrentConfig (st'\<lparr>env := e'\<rparr>)) = Some False)"
proof -
  have ptr: "files st' CurrentFile = Some (configLine P)"
    using setCurrentConfig_frame(1) [OF assms(1)] .
  have cur: "\<And>s. files s CurrentFile = Some (configLine P) \<Longrightarrow>
     map_option isActive (getCurrentConfig s) =
       Some (env s (envVarOf P) = Some secret
             \<and> env s ''ANTHROPIC_BASE_URL'' = Some baseUrl)"
    using assms(2,3,4) by (simp add: getCurrentConfig_of_line toStr_def)
  have a: "map_option isActive (getCurrentConfig st') = Some True"
    if "fst (updateClaudeSettings (token P) (url P) st) = Inl e" for e
  proof -
    have "env st' (envVarOf P) = Some secret"
      and "env st' ''ANTHROPIC_BASE_URL'' = Some baseUrl"
      using setCurrentConfig_env_fallback [OF assms(1) that] assms(3,4)
      by (simp_all add: envVarOf_def toStr_def)
    then show ?thesis using cur [OF ptr] by simp
  qed
  have b: "map_option isActive (getCurrentConfig st') =
              Some (env st (envVarOf P) = Some secret
                    \<and> env st ''ANTHROPIC_BASE_URL'' = Some baseUrl)"
    if "fst (updateClaudeSettings (token P) (url P) st) = Inr ()"
    using setCurrentConfig_env_settings [OF assms(1) that] cur [OF ptr] by simp
  have c: "map_option isActive (getCurrentConfig (st'\<lparr>env := e'\<rparr>)) = Some False"
    if "e' (envVarOf P) \<noteq> Some secret" for e'
    using cur [of "st'\<lparr>env := e'\<rparr>"] ptr that by simp
  from a b c show ?thesis by blast
qed

lemma barFree_kimi: "barFree kimi"
  by (simp add: barFree_def kimi_def toStr_def orElse_def)

lemma split_kimiBar:
  "split BAR (configLine kimiBar) =
     [''kimi'', ''Cl'', ''aude'', ''sk-xxx'', ''https://api.moonshot.cn/anthropic'', ''TOKEN'']"
  by code_simp

text \<open>
  C2 as stated fails twice. On a fresh host activation succeeds through the settings file
  and \<open>isActive\<close> is false immediately afterwards. And for a profile whose display name
  contains the field separator, activation through the shell fallback succeeds and
  \<open>isActive\<close> is false as well, because the pointer line reads back with shifted fields.
\<close>

theorem getCurrentConfig_liveness_counterexample:
  "fst (setCurrentConfig kimi emptyState) = Inr ()
   \<and> map_option isActive (getCurrentConfig (snd (setCurrentConfig kimi emptyState))) = Some False
   \<and> \<not> barFree kimiBar
   \<and> fst (setCurrentConfig kimiBar lockedSettingsState) = Inr ()
   \<and> fst (updateClaudeSettings (token kimiBar) (url kimiBar) lockedSettingsState) = Inl SettingsWriteFailed
   \<and> map_option isActive (getCurrentConfig (snd (setCurrentConfig kimiBar lockedSettingsState))) = Some False"
proof -
  have r: "fst (setCurrentConfig kimi emptyState) = Inr ()"
    using setCurrentConfig_emptyState by (simp add: prod_eq_iff)
  have p: "files (snd (setCurrentConfig kimi emptyState)) CurrentFile = Some (configLine kimi)"
    using setCurrentConfig_frame(1) [OF setCurrentConfig_emptyState] .
  have e: "env (snd (setCurrentConfig kimi emptyState)) = Map.empty"
    using setCurrentConfig_env_settings [OF setCurrentConfig_emptyState updateClaudeSettings_emptyState]
    by (simp add: emptyState_def)
  have one: "map_option isActive (getCurrentConfig (snd (setCurrentConfig kimi emptyState))) = Some False"
    by (simp add: getCurrentConfig_of_line [OF p barFree_kimi] e)
  have nb: "\<not> barFree kimiBar"
    by (simp add: barFree_def kimiBar_def toStr_def)
  have a: "setCurrentConfig kimiBar lockedSettingsState
             = (Inr (), snd (setCurrentConfig kimiBar lockedSettingsState))"
    unfolding kimiBar_def by (rule setCurrentConfig_lockedSettingsState)
  have u: "fst (updateClaudeSettings (token kimiBar) (url kimiBar) lockedSettingsState) = Inl SettingsWriteFailed"
    by (simp add: kimiBar_def updateClaudeSettings_lockedSettingsState)
  have p2: "files (snd (setCurrentConfig kimiBar lockedSettingsState)) CurrentFile = Some (configLine kimiBar)"
    using setCurrentConfig_frame(1) [OF a] .
  have "env (snd (setCurrentConfig kimiBar lockedSettingsState)) ''ANTHROPIC_AUTH_TOKEN'' = Some ''sk-xxx''"
    using setCurrentConfig_env_fallback [OF a u]
    by (simp add: kimiBar_def envVarOf_def toStr_def)
  then have two: "map_option isActive (getCurrentConfig (snd (setCurrentConfig kimiBar lockedSettingsState))) = Some False"
    by (simp add: getCurrentConfig_isActive [OF p2] split_kimiBar nth_opt_def orElse_def)
  have r2: "fst (setCurrentConfig kimiBar lockedSettingsState) = Inr ()"
    by (subst a) simp
  from r one nb r2 u two show ?thesis by blast
qed

theorem getCurrentConfig_liveness_witness:
  "fst (setCurrentConfig kimi lockedSettingsState) = Inr () \<and> barFree kimi
   \<and> token kimi = Some ''sk-xxx'' \<and> url kimi = Some ''https://api.moonshot.cn/anthropic''
   \<and> fst (updateClaudeSettings (token kimi) (url kimi) lockedSettingsState) = Inl SettingsWriteFailed
   \<and> map_option isActive (getCurrentConfig (snd (setCurrentConfig kimi lockedSettingsState))) = Some True
   \<and> map_option isActive
        (getCurrentConfig ((snd (setCurrentConfig kimi lockedSettingsState))\<lparr>env := Map.empty\<rparr>)) = Some False"
proof -
  have a: "setCurrentConfig kimi lockedSettingsState
             = (Inr (), snd (setCurrentConfig kimi lockedSettingsState))"
    unfolding kimi_def by (rule setCurrentConfig_lockedSettingsState)
  have t: "token kimi = Some ''sk-xxx''" and u: "url kimi = Some ''https://api.moonshot.cn/anthropic''"
    by (simp_all add: kimi_def)
  have b: "fst (updateClaudeSettings (token kimi) (url kimi) lockedSettingsState) = Inl SettingsWriteFailed"
    by (simp only: t u updateClaudeSettings_lockedSettingsState)
  have r: "fst (setCurrentConfig kimi lockedSettingsState) = Inr ()"
    using a by (simp add: prod_eq_iff)
  note T = getCurrentConfig_liveness [OF a barFree_kimi t u]
  have x: "map_option isActive (getCurrentConfig (snd (setCurrentConfig kimi lockedSettingsState))) = Some True"
    using T [THEN conjunct1, rule_format, OF b] .
  have y: "map_option isActive
        (getCurrentConfig ((snd (setCurrentConfig kimi lockedSettingsState))\<lparr>env := Map.empty\<rparr>)) = Some False"
    using T [THEN conjunct2, THEN conjunct2, rule_format, of Map.empty] by simp
  from r barFree_kimi t u b x y show ?thesis by (intro conjI)
qed

section \<open>The profile list: reading short lines\<close>

lemma parseConfigs_line:
  "c \<in> set (parseConfigs content) \<longleftrightarrow> (\<exists>l\<in>set (split LF content). trimTruthy l \<and> c = parseLine l)"
  by (auto simp: parseConfigs_def)

lemma parseLine_alias: "alias' (parseLine l) = Some (hd (split BAR l))"
  using split_nonempty [of BAR l]
  by (cases "split BAR l") (simp_all add: parseLine_def nth_opt_def Let_def)

lemma parseLine_short:
  assumes "length (split BAR l) < 4"
  shows "url (parseLine l) = None"
    and "length (split BAR l) < 3 \<Longrightarrow> token (parseLine l) = None"
    and "length (split BAR l) < 2 \<Longrightarrow> name (parseLine l) = None"
    and "type (parseLine l) = Some ''TOKEN''"
  using assms by (simp_all add: parseLine_def nth_opt_def orElse_def Let_def)

text \<open>
  C7, as amended. For every stored line that is not blank and splits into fewer than four
  fields, \<^verbatim>\<open>getAllConfigs\<close> succeeds and returns a record for it; the alias is the first
  field, every field the line does not have is undefined (absent, not the empty string),
  and the kind is TOKEN.
\<close>

theorem getAllConfigs_short_line:
  assumes "files st ConfigFile = Some content"
    and "l \<in> set (split LF content)" and "trimTruthy l"
    and "length (split BAR l) < 4"
  shows "\<exists>cs. getAllConfigs st = (Inr cs, st) \<and> parseLine l \<in> set cs
           \<and> alias' (parseLine l) = Some (hd (split BAR l))
           \<and> url (parseLine l) = None
           \<and> (length (split BAR l) < 3 \<longrightarrow> token (parseLine l) = None)
           \<and> (length (split BAR l) < 2 \<longrightarrow> name (parseLine l) = None)
           \<and> type (parseLine l) = Some ''TOKEN''"
  using assms parseLine_short [OF assms(4)]
  by (auto simp: getAllConfigs_exists parseConfigs_line parseLine_alias)

lemma parseConfigs_shortLineStore:
  "parseConfigs (''a|x|y|z'' @ [LF] @ ''b|c'') =
     [\<lparr>alias' = Some ''a'', name = Some ''x'', token = Some ''y'', url = Some ''z'', type = Some ''TOKEN''\<rparr>,
      \<lparr>alias' = Some ''b'', name = Some ''c'', token = None, url = None, type = Some ''TOKEN''\<rparr>]"
  by code_simp

lemma files_shortLineStore:
  "files shortLineStore ConfigFile = Some (''a|x|y|z'' @ [LF] @ ''b|c'')"
  by (simp add: shortLineStore_def)

text \<open>
  C7 as stated fails: for the line of two fields the secret and the base URL of the record
  are undefined, not the empty string.
\<close>

theorem getAllConfigs_short_line_counterexample:
  "fst (getAllConfigs shortLineStore) =
     Inr [\<lparr>alias' = Some ''a'', name = Some ''x'', token = Some ''y'', url = Some ''z'', type = Some ''TOKEN''\<rparr>,
          \<lparr>alias' = Some ''b'', name = Some ''c'', token = None, url = None, type = Some ''TOKEN''\<rparr>]
   \<and> map token (projr (fst (getAllConfigs shortLineStore))) \<noteq> [Some ''y'', Some []]
   \<and> map url (projr (fst (getAllConfigs shortLineStore))) \<noteq> [Some ''z'', Some []]"
  by (simp only: getAllConfigs_exists [OF files_shortLineStore] parseConfigs_shortLineStore) simp

theorem getAllConfigs_short_line_witness:
  "files shortLineStore ConfigFile = Some (''a|x|y|z'' @ [LF] @ ''b|c'')
   \<and> ''b|c'' \<in> set (split LF (''a|x|y|z'' @ [LF] @ ''b|c'')) \<and> trimTruthy ''b|c''
   \<and> length (split BAR ''b|c'') < 4
   \<and> (\<exists>cs. getAllConfigs shortLineStore = (Inr cs, shortLineStore) \<and> parseLine ''b|c'' \<in> set cs)
   \<and> url (parseLine ''b|c'') = None \<and> token (parseLine ''b|c'') = None"
proof -
  have l: "''b|c'' \<in> set (split LF (''a|x|y|z'' @ [LF] @ ''b|c''))" by simp
  have t: "trimTruthy ''b|c''" by (rule trimTruthy_BAR) simp
  have n: "length (split BAR ''b|c'') < 4" by simp
  have n3: "length (split BAR ''b|c'') < 3" by simp
  from getAllConfigs_short_line [OF files_shortLineStore l t n] files_shortLineStore l t n n3
  show ?thesis by blast
qed

section \<open>The profile list: removing\<close>

lemma split_join:
  "ls \<noteq> [] \<Longrightarrow> \<forall>l\<in>set ls. c \<notin> set l \<Longrightarrow> split c (join [c] ls) = ls"
proof (induction "[c]" ls rule: join.induct)
  case 1
  then show ?case by simp
next
  case (2 x)
  then show ?case by (simp add: split_no_sep)
next
  case (3 x y ys)
  then show ?case by (simp add: split_append_sep split_no_sep)
qed

lemma parseConfigs_join:
  assumes "\<forall>l\<in>set ls. LF \<notin> set l \<and> trimTruthy l"
  shows "parseConfigs (join [LF] ls) = map parseLine ls"
proof (cases "ls = []")
  case True
  then show ?thesis by (simp add: parseConfigs_Nil)
next
  case False
  have "split LF (join [LF] ls) = ls"
    using False assms by (intro split_join) auto
  moreover have "filter trimTruthy ls = ls"
    using assms by (simp add: filter_id_conv)
  ultimately show ?thesis by (simp add: parseConfigs_def)
qed

lemma parseLine_roundtrip:
  assumes "LF \<notin> set l" and "url (parseLine l) \<noteq> None"
  shows "parseLine (configLine (parseLine l)) = parseLine l"
    and "LF \<notin> set (configLine (parseLine l))"
    and "trimTruthy (configLine (parseLine l))"
proof -
  let ?ps = "split BAR l"
  have len: "4 \<le> length ?ps"
    using assms(2) by (simp add: parseLine_def nth_opt_def Let_def split: if_splits)
  define a n t u k where "a = ?ps ! 0" and "n = ?ps ! 1" and "t = ?ps ! 2" and "u = ?ps ! 3"
    and "k = orElse (nth_opt ?ps 4) ''TOKEN''"
  have mem: "a \<in> set ?ps" "n \<in> set ?ps" "t \<in> set ?ps" "u \<in> set ?ps"
    using len unfolding a_def n_def t_def u_def by (auto intro!: nth_mem)
  have kk: "k = ''TOKEN'' \<or> k \<in> set ?ps"
    by (auto simp: k_def orElse_def nth_opt_def)
  have bar: "BAR \<notin> set a" "BAR \<notin> set n" "BAR \<notin> set t" "BAR \<notin> set u" "BAR \<notin> set k"
    using mem kk split_parts_free [of _ BAR l] by auto
  have lf: "LF \<notin> set a" "LF \<notin> set n" "LF \<notin> set t" "LF \<notin> set u" "LF \<notin> set k"
    using mem kk split_parts_subset [of _ BAR l] assms(1) by auto
  have pl: "parseLine l = \<lparr>alias' = Some a, name = Some n, token = Some t, url = Some u, type = Some k\<rparr>"
    using len split_nonempty [of BAR l]
    by (simp add: parseLine_def nth_opt_def Let_def a_def n_def t_def u_def k_def)
  have cl: "configLine (parseLine l) = a @ [BAR] @ n @ [BAR] @ t @ [BAR] @ u @ [BAR] @ k"
    by (simp add: pl configLine_def toStr_def k_def orElse_idem)
  have ok: "orElse (Some k) ''TOKEN'' = k"
    by (simp add: k_def orElse_idem)
  have "parseLine (configLine (parseLine l)) =
     parseLine (a @ [BAR] @ n @ [BAR] @ t @ [BAR] @ u @ [BAR] @ k)"
    by (simp only: cl)
  also have "\<dots> = \<lparr>alias' = Some a, name = Some n, token = Some t, url = Some u,
      type = Some (orElse (Some k) ''TOKEN'')\<rparr>"
    by (rule parseLine_five) fact+
  also have "\<dots> = parseLine l"
    by (simp only: pl ok)
  finally show "parseLine (configLine (parseLine l)) = parseLine l" .
  show "LF \<notin> set (configLine (parseLine l))"
    using lf by (simp add: cl)
  show "trimTruthy (configLine (parseLine l))"
    by (rule trimTruthy_BAR) (simp add: cl)
qed

lemma parseConfigs_rewrite:
  assumes "\<forall>c\<in>set cs. c \<in> set (parseConfigs content) \<and> url c \<noteq> None"
  shows "parseConfigs (join [LF] (map configLine cs)) = cs"
proof -
  have rt: "parseLine (configLine c) = c \<and> LF \<notin> set (configLine c) \<and> trimTruthy (configLine c)"
    if "c \<in> set cs" for c
  proof -
    from that assms obtain l where l: "l \<in> set (split LF content)" "c = parseLine l" "url c \<noteq> None"
      by (auto simp: parseConfigs_line)
    have "LF \<notin> set l" using l(1) by (rule split_parts_free)
    with l show ?thesis using parseLine_roundtrip [of l] by simp
  qed
  have "parseConfigs (join [LF] (map configLine cs)) = map parseLine (map configLine cs)"
    by (rule parseConfigs_join) (auto simp: rt)
  also have "\<dots> = cs"
    using rt by (simp add: map_idI)
  finally show ?thesis .
qed

lemma removeConfig_unknown:
  assumes "getAllConfigs st = (Inr cs, st1)"
    and "find (\<lambda>config. alias' config = Some a) cs = None"
  shows "removeConfig a st = (Inl (UnknownAlias a), st1)"
  using assms by (simp add: removeConfig_def)

lemma removeConfig_found:
  assumes "getAllConfigs st = (Inr cs, st1)"
    and "find (\<lambda>config. alias' config = Some a) cs = Some r"
    and "ConfigFile \<notin> unwritable st" and "CurrentFile \<notin> unwritable st"
  shows "\<exists>st'. removeConfig a st = (Inr r, st')
           \<and> files st' ConfigFile
               = Some (join [LF] (map configLine (filter (\<lambda>config. alias' config \<noteq> Some a) cs)))
           \<and> files st' CurrentFile
               = (case files st CurrentFile of
                    None \<Rightarrow> None
                  | Some cur \<Rightarrow> if prefix (a @ [BAR]) cur then None else Some cur)"
proof -
  note s = getAllConfigs_stored [OF assms(1)]
  have u: "ConfigFile \<notin> unwritable st1" "CurrentFile \<notin> unwritable st1"
    using s assms(3,4) by simp_all
  have c: "files st1 CurrentFile = files st CurrentFile"
    using s by simp
  show ?thesis
    using u c
    by (cases "files st CurrentFile")
       (simp_all add: removeConfig_def assms(1,2) Let_def writeFileSync_def existsSync_def
          readFileSync_def unlinkSync_def)
qed

text \<open>
  C5, as amended. When the profile-list file and the pointer file can be written,
  \<^verbatim>\<open>removeConfig\<close> fails exactly if no stored profile has the alias; it then fails with the
  unknown-alias error, the stored profiles are unchanged, and the whole state is unchanged
  when the profile-list file existed. When it succeeds it returns the first stored profile
  with the alias, and, provided every remaining stored line has at least four fields, the
  stored profiles afterwards are the previous ones without those of the alias, in their
  original order.
\<close>

theorem removeConfig_store:
  assumes "ConfigFile \<notin> unwritable st" and "CurrentFile \<notin> unwritable st"
  shows "(isl (fst (removeConfig a st)) \<longleftrightarrow> (\<forall>c\<in>set (storedConfigs st). alias' c \<noteq> Some a))
       \<and> (isl (fst (removeConfig a st)) \<longrightarrow>
            fst (removeConfig a st) = Inl (UnknownAlias a)
            \<and> storedConfigs (snd (removeConfig a st)) = storedConfigs st
            \<and> (files st ConfigFile \<noteq> None \<longrightarrow> snd (removeConfig a st) = st))
       \<and> (\<not> isl (fst (removeConfig a st)) \<longrightarrow>
            (\<exists>r. fst (removeConfig a st) = Inr r
                 \<and> find (\<lambda>c. alias' c = Some a) (storedConfigs st) = Some r)
            \<and> ((\<forall>c\<in>set (storedConfigs st). alias' c \<noteq> Some a \<longrightarrow> url c \<noteq> None) \<longrightarrow>
                 storedConfigs (snd (removeConfig a st))
                   = filter (\<lambda>c. alias' c \<noteq> Some a) (storedConfigs st)))"
proof -
  obtain st1 where g: "getAllConfigs st = (Inr (storedConfigs st), st1)"
    using getAllConfigs_writable [OF assms(1)] by blast
  note s = getAllConfigs_stored [OF g]
  show ?thesis
  proof (cases "find (\<lambda>c. alias' c = Some a) (storedConfigs st)")
    case None
    have r: "removeConfig a st = (Inl (UnknownAlias a), st1)"
      using removeConfig_unknown [OF g None] .
    have "\<forall>c\<in>set (storedConfigs st). alias' c \<noteq> Some a"
      using None by (auto simp: find_None_iff)
    then show ?thesis using r s by simp
  next
    case (Some r)
    from removeConfig_found [OF g Some assms] obtain st' where
      r: "removeConfig a st = (Inr r, st')"
      and f: "files st' ConfigFile
               = Some (join [LF] (map configLine (filter (\<lambda>c. alias' c \<noteq> Some a) (storedConfigs st))))"
      by blast
    have ex: "\<not> (\<forall>c\<in>set (storedConfigs st). alias' c \<noteq> Some a)"
      using Some by (auto simp: find_Some_iff)
    have rw: "storedConfigs st' = filter (\<lambda>c. alias' c \<noteq> Some a) (storedConfigs st)"
      if wf: "\<forall>c\<in>set (storedConfigs st). alias' c \<noteq> Some a \<longrightarrow> url c \<noteq> None"
    proof -
      from s obtain content where c: "files st1 ConfigFile = Some content" by auto
      then have sc: "storedConfigs st = parseConfigs content"
        using s by (simp add: storedConfigs_def)
      have "parseConfigs (join [LF] (map configLine (filter (\<lambda>c. alias' c \<noteq> Some a) (storedConfigs st))))
            = filter (\<lambda>c. alias' c \<noteq> Some a) (storedConfigs st)"
        by (rule parseConfigs_rewrite [of _ content]) (use wf sc in auto)
      then show ?thesis by (simp add: storedConfigs_def f)
    qed
    show ?thesis using r ex rw Some by simp
  qed
qed


lemma storedConfigs_shortLineStore:
  "storedConfigs shortLineStore =
     [\<lparr>alias' = Some ''a'', name = Some ''x'', token = Some ''y'', url = Some ''z'', type = Some ''TOKEN''\<rparr>,
      \<lparr>alias' = Some ''b'', name = Some ''c'', token = None, url = None, type = Some ''TOKEN''\<rparr>]"
  by (simp only: storedConfigs_def files_shortLineStore option.case parseConfigs_shortLineStore)

lemma parseConfigs_undefined:
  "parseConfigs (join [LF] (map configLine
       [\<lparr>alias' = Some ''b'', name = Some ''c'', token = None, url = None, type = Some ''TOKEN''\<rparr>]))
     = [\<lparr>alias' = Some ''b'', name = Some ''c'', token = Some ''undefined'',
          url = Some ''undefined'', type = Some ''TOKEN''\<rparr>]"
  by code_simp

text \<open>
  C5 as stated fails: after removing the first profile, the remaining line of two fields is
  written back with the word undefined for each missing field, so the record read
  afterwards is not the one stored before.
\<close>

theorem removeConfig_store_counterexample:
  "fst (removeConfig ''a'' shortLineStore)
     = Inr \<lparr>alias' = Some ''a'', name = Some ''x'', token = Some ''y'', url = Some ''z'', type = Some ''TOKEN''\<rparr>
   \<and> filter (\<lambda>c. alias' c \<noteq> Some ''a'') (storedConfigs shortLineStore)
     = [\<lparr>alias' = Some ''b'', name = Some ''c'', token = None, url = None, type = Some ''TOKEN''\<rparr>]
   \<and> storedConfigs (snd (removeConfig ''a'' shortLineStore))
     = [\<lparr>alias' = Some ''b'', name = Some ''c'', token = Some ''undefined'',
          url = Some ''undefined'', type = Some ''TOKEN''\<rparr>]"
proof -
  let ?A = "\<lparr>alias' = Some ''a'', name = Some ''x'', token = Some ''y'', url = Some ''z'', type = Some ''TOKEN''\<rparr>"
  let ?B = "\<lparr>alias' = Some ''b'', name = Some ''c'', token = None, url = None, type = Some ''TOKEN''\<rparr>"
  have g: "getAllConfigs shortLineStore = (Inr [?A, ?B], shortLineStore)"
    by (simp only: getAllConfigs_exists [OF files_shortLineStore] parseConfigs_shortLineStore)
  have f: "find (\<lambda>config. alias' config = Some ''a'') [?A, ?B] = Some ?A" by simp
  have w: "ConfigFile \<notin> unwritable shortLineStore" "CurrentFile \<notin> unwritable shortLineStore"
    by (simp_all add: shortLineStore_def emptyState_def)
  have fl: "filter (\<lambda>config. alias' config \<noteq> Some ''a'') [?A, ?B] = [?B]" by simp
  from removeConfig_found [OF g f w] obtain st' where
    r: "removeConfig ''a'' shortLineStore = (Inr ?A, st')"
    and c: "files st' ConfigFile = Some (join [LF] (map configLine [?B]))"
    by (auto simp only: fl)
  have "storedConfigs st' = parseConfigs (join [LF] (map configLine [?B]))"
    by (simp only: storedConfigs_def c option.case)
  then have s: "storedConfigs st' = [\<lparr>alias' = Some ''b'', name = Some ''c'', token = Some ''undefined'',
          url = Some ''undefined'', type = Some ''TOKEN''\<rparr>]"
    by (simp only: parseConfigs_undefined)
  show ?thesis
    by (simp only: r fst_conv snd_conv s storedConfigs_shortLineStore fl)
qed

lemma files_kimiStore:
  "files kimiStore ConfigFile = Some ''kimi|Claude|sk-xxx|https://api.moonshot.cn/anthropic|TOKEN''"
  "files kimiStore CurrentFile = None"
  by (simp_all add: kimiStore_def)

lemma writable_kimiStore:
  "ConfigFile \<notin> unwritable kimiStore" "CurrentFile \<notin> unwritable kimiStore"
  by (simp_all add: kimiStore_def emptyState_def)

theorem removeConfig_store_witness:
  "ConfigFile \<notin> unwritable kimiStore \<and> CurrentFile \<notin> unwritable kimiStore
   \<and> storedConfigs kimiStore = [kimi]
   \<and> fst (removeConfig ''kimi'' kimiStore) = Inr kimi
   \<and> storedConfigs (snd (removeConfig ''kimi'' kimiStore)) = []
   \<and> fst (removeConfig ''other'' kimiStore) = Inl (UnknownAlias ''other'')
   \<and> snd (removeConfig ''other'' kimiStore) = kimiStore"
proof -
  note K = removeConfig_store [OF writable_kimiStore, of "''kimi''"]
  note O = removeConfig_store [OF writable_kimiStore, of "''other''"]
  have a: "alias' kimi = Some ''kimi''" by (simp add: kimi_def)
  have nk: "\<not> isl (fst (removeConfig ''kimi'' kimiStore))"
    using K [THEN conjunct1] by (simp add: storedConfigs_kimiStore a)
  have k1: "fst (removeConfig ''kimi'' kimiStore) = Inr kimi"
    using K [THEN conjunct2, THEN conjunct2] nk by (auto simp: storedConfigs_kimiStore a)
  have k2: "storedConfigs (snd (removeConfig ''kimi'' kimiStore)) = []"
    using K [THEN conjunct2, THEN conjunct2] nk by (simp add: storedConfigs_kimiStore a)
  have io: "isl (fst (removeConfig ''other'' kimiStore))"
    using O [THEN conjunct1] by (simp add: storedConfigs_kimiStore a)
  have o1: "fst (removeConfig ''other'' kimiStore) = Inl (UnknownAlias ''other'')"
    and o2: "snd (removeConfig ''other'' kimiStore) = kimiStore"
    using O [THEN conjunct2, THEN conjunct1] io by (simp_all add: files_kimiStore)
  from writable_kimiStore storedConfigs_kimiStore k1 k2 o1 o2 show ?thesis by (intro conjI)
qed


section \<open>Removing the active profile\<close>

lemma storedConfigs_alias:
  assumes "P \<in> set (storedConfigs st)"
  shows "\<exists>a. alias' P = Some a" and "files st ConfigFile \<noteq> None"
proof -
  from assms obtain content where c: "files st ConfigFile = Some content"
    and p: "P \<in> set (parseConfigs content)"
    by (cases "files st ConfigFile") (auto simp: storedConfigs_def)
  from p obtain l where "P = parseLine l" by (auto simp: parseConfigs_line)
  then show "\<exists>a. alias' P = Some a" by (simp add: parseLine_alias)
  from c show "files st ConfigFile \<noteq> None" by simp
qed

lemma prefix_configLine: "alias' P = Some a \<Longrightarrow> prefix (a @ [BAR]) (configLine P)"
  by (simp add: configLine_def toStr_def)

text \<open>
  C6. For every stored profile, after \<^verbatim>\<open>setCurrentConfig\<close> has returned successfully for
  it, \<^verbatim>\<open>removeConfig\<close> of its alias succeeds (the profile-list file being writable) and
  \<^verbatim>\<open>getCurrentConfig\<close> then returns null: the removal has deleted the pointer file.
\<close>

theorem removeConfig_clears_pointer:
  assumes "P \<in> set (storedConfigs st)"
    and "setCurrentConfig P st = (Inr (), st1)"
    and "ConfigFile \<notin> unwritable st"
  shows "\<exists>a r st2. alias' P = Some a \<and> removeConfig a st1 = (Inr r, st2)
            \<and> getCurrentConfig st2 = None"
proof -
  from storedConfigs_alias [OF assms(1)] obtain a content
    where a: "alias' P = Some a" and c: "files st ConfigFile = Some content" by auto
  note f = setCurrentConfig_frame [OF assms(2)]
  have c1: "files st1 ConfigFile = Some content" using f(2) c by simp
  have sc: "storedConfigs st1 = storedConfigs st"
    using f(2) by (simp add: storedConfigs_def)
  have g: "getAllConfigs st1 = (Inr (storedConfigs st1), st1)"
    using getAllConfigs_exists [OF c1] c1 by (simp add: storedConfigs_def)
  have "find (\<lambda>config. alias' config = Some a) (storedConfigs st1) \<noteq> None"
    using assms(1) a sc by (auto simp: find_None_iff)
  then obtain r where fr: "find (\<lambda>config. alias' config = Some a) (storedConfigs st1) = Some r"
    by auto
  have w: "ConfigFile \<notin> unwritable st1" "CurrentFile \<notin> unwritable st1"
    using f(3,4) assms(3) by simp_all
  from removeConfig_found [OF g fr w] obtain st2 where
    r: "removeConfig a st1 = (Inr r, st2)"
    and p: "files st2 CurrentFile
               = (case files st1 CurrentFile of
                    None \<Rightarrow> None
                  | Some cur \<Rightarrow> if prefix (a @ [BAR]) cur then None else Some cur)"
    by blast
  have "files st2 CurrentFile = None"
    using p f(1) prefix_configLine [OF a] by simp
  then have "getCurrentConfig st2 = None"
    by (simp add: getCurrentConfig_def)
  with a r show ?thesis by blast
qed

lemma setCurrentConfig_kimiStore:
  "setCurrentConfig kimi kimiStore = (Inr (), snd (setCurrentConfig kimi kimiStore))"
  by (simp add: setCurrentConfig_def writeFileSync_def updateClaudeSettings_def
      readClaudeSettings_def defaultSettings_def assignEnv_def setMember_def
      writeClaudeSettings_def kimi_def kimiStore_def emptyState_def)

theorem removeConfig_clears_pointer_witness:
  "kimi \<in> set (storedConfigs kimiStore)
   \<and> fst (setCurrentConfig kimi kimiStore) = Inr ()
   \<and> getCurrentConfig (snd (setCurrentConfig kimi kimiStore)) \<noteq> None
   \<and> ConfigFile \<notin> unwritable kimiStore
   \<and> (\<exists>r st2. removeConfig ''kimi'' (snd (setCurrentConfig kimi kimiStore)) = (Inr r, st2)
          \<and> getCurrentConfig st2 = None)"
proof -
  have m: "kimi \<in> set (storedConfigs kimiStore)"
    by (simp add: storedConfigs_kimiStore)
  have r: "fst (setCurrentConfig kimi kimiStore) = Inr ()"
    by (subst setCurrentConfig_kimiStore) simp
  have "files (snd (setCurrentConfig kimi kimiStore)) CurrentFile = Some (configLine kimi)"
    using setCurrentConfig_frame(1) [OF setCurrentConfig_kimiStore] .
  then have n: "getCurrentConfig (snd (setCurrentConfig kimi kimiStore)) \<noteq> None"
    by (simp add: getCurrentConfig_def Let_def)
  have a: "alias' kimi = Some ''kimi''" by (simp add: kimi_def)
  from removeConfig_clears_pointer [OF m setCurrentConfig_kimiStore writable_kimiStore(1)] a
  have "\<exists>r st2. removeConfig ''kimi'' (snd (setCurrentConfig kimi kimiStore)) = (Inr r, st2)
          \<and> getCurrentConfig st2 = None"
    by auto
  with m r n writable_kimiStore(1) show ?thesis by (intro conjI)
qed

section \<open>Activation and the settings file\<close>

lemma map_of_setMember:
  "map_of (setMember k v e) = (map_of e)(k := map_option JStr v)"
  by (cases v) (simp_all add: setMember_def update_conv' delete_conv')

lemma assignEnv_object:
  assumes "jsonMember doc ''env'' = Some (JObj e)"
  shows "\<exists>members. doc = JObj members
           \<and> assignEnv k v doc = Inr (JObj (AList.update ''env'' (JObj (setMember k v e)) members))"
  using assms by (cases doc) (simp_all add: jsonMember_def assignEnv_def)

lemma assignEnv_frame:
  assumes "assignEnv k v doc = Inr doc'"
  shows "j \<noteq> ''env'' \<Longrightarrow> jsonMember doc' j = jsonMember doc j"
    and "j \<noteq> k \<Longrightarrow> envEntry doc' j = envEntry doc j"
    and "envIsObject doc' = envIsObject doc"
    and "envIsObject doc \<Longrightarrow> envEntry doc' k = map_option JStr v"
proof -
  from assms obtain members where d: "doc = JObj members"
    by (cases doc) (simp_all add: assignEnv_def)
  consider (obj) e where "map_of members ''env'' = Some (JObj e)"
      "doc' = JObj (AList.update ''env'' (JObj (setMember k v e)) members)"
    | (arr) xs where "map_of members ''env'' = Some (JArr xs)" "doc' = doc"
    using assms d
    by (auto simp: assignEnv_def split: option.splits json.splits)
  then have "(j \<noteq> ''env'' \<longrightarrow> jsonMember doc' j = jsonMember doc j)
     \<and> (j \<noteq> k \<longrightarrow> envEntry doc' j = envEntry doc j)
     \<and> envIsObject doc' = envIsObject doc
     \<and> (envIsObject doc \<longrightarrow> envEntry doc' k = map_option JStr v)"
  proof cases
    case obj
    then show ?thesis
      using d by (simp add: jsonMember_def envEntry_def envIsObject_def update_conv' map_of_setMember)
  next
    case arr
    then show ?thesis
      using d by (simp add: jsonMember_def envEntry_def envIsObject_def)
  qed
  then show "j \<noteq> ''env'' \<Longrightarrow> jsonMember doc' j = jsonMember doc j"
    and "j \<noteq> k \<Longrightarrow> envEntry doc' j = envEntry doc j"
    and "envIsObject doc' = envIsObject doc"
    and "envIsObject doc \<Longrightarrow> envEntry doc' k = map_option JStr v"
    by simp_all
qed

lemma assignEnv_succeeds: "envIsObject doc \<Longrightarrow> \<exists>doc'. assignEnv k v doc = Inr doc'"
  by (cases doc) (auto simp: envIsObject_def jsonMember_def assignEnv_def split: option.splits json.splits)

text \<open>What \<^verbatim>\<open>updateClaudeSettings\<close> leaves in the settings file.\<close>

lemma updateClaudeSettings_result:
  assumes "updateClaudeSettings t b st = (r, st')"
  obtains (thrown) e where "r = Inl e" "st' = st"
    | (written) doc1 doc2 where "r = Inr ()"
        "assignEnv ''ANTHROPIC_AUTH_TOKEN'' t (readClaudeSettings st) = Inr doc1"
        "assignEnv ''ANTHROPIC_BASE_URL'' b doc1 = Inr doc2"
        "settings st' = Some (Parsed doc2)" "SettingsFile \<notin> unwritable st"
  using assms
  by (auto simp: updateClaudeSettings_def writeClaudeSettings_def split: sum.splits if_splits)


lemma updateClaudeSettings_files_settings:
  "settings (snd (updateClaudeSettings t b (st\<lparr>files := f\<rparr>)))
     = settings (snd (updateClaudeSettings t b st))"
  by (auto simp: updateClaudeSettings_def writeClaudeSettings_def readClaudeSettings_def
      split: sum.splits if_splits)

lemma updateShellConfig_settings: "settings (snd (updateShellConfig P st)) = settings st"
proof (cases "getProfileFile st")
  case (Pair r0 st0)
  show ?thesis
  proof (cases r0)
    case (Inl e)
    with Pair show ?thesis by (simp add: updateShellConfig_profile_fails)
  next
    case (Inr pf)
    with Pair have g: "getProfileFile st = (Inr pf, st0)" by simp
    from updateShellConfig_after_profile(2) [OF g surjective_pairing] show ?thesis .
  qed
qed

text \<open>The settings file after activation is what the settings-file update leaves.\<close>

lemma setCurrentConfig_settings:
  "settings (snd (setCurrentConfig P st)) =
     (if CurrentFile \<in> unwritable st then settings st
      else settings (snd (updateClaudeSettings (token P) (url P) st)))"
proof (cases "CurrentFile \<in> unwritable st")
  case True
  then show ?thesis by (simp add: setCurrentConfig_def writeFileSync_def)
next
  case False
  let ?st1 = "st\<lparr>files := (files st)(CurrentFile \<mapsto> configLine P)\<rparr>"
  obtain r2 st2 where u: "updateClaudeSettings (token P) (url P) ?st1 = (r2, st2)"
    by (cases "updateClaudeSettings (token P) (url P) ?st1") auto
  have eq: "settings st2 = settings (snd (updateClaudeSettings (token P) (url P) st))"
    using updateClaudeSettings_files_settings [of "token P" "url P" _ st] u
    by (metis snd_conv)
  have "settings (snd (setCurrentConfig P st)) = settings st2"
  proof (cases r2)
    case (Inr x)
    then show ?thesis using False u by (simp add: setCurrentConfig_def writeFileSync_def)
  next
    case (Inl e)
    then have "st2 = ?st1" using u updateClaudeSettings_Inl by blast
    then show ?thesis
      using False u Inl
      by (simp add: setCurrentConfig_def writeFileSync_def updateShellConfig_settings)
  qed
  with eq False show ?thesis by simp
qed





section \<open>The settings file and the credential kind\<close>

lemma file_ops_settings:
  "writeFileSync p c st = Inr st' \<Longrightarrow> settings st' = settings st"
  "appendFileSync p c st = Inr st' \<Longrightarrow> settings st' = settings st"
  "unlinkSync p st = Inr st' \<Longrightarrow> settings st' = settings st"
  by (auto simp: writeFileSync_def appendFileSync_def unlinkSync_def split: if_splits)

lemma getAllConfigs_settings: "settings (snd (getAllConfigs st)) = settings st"
  by (auto simp: getAllConfigs_def initConfig_def writeFileSync_def readFileSync_def
      split: sum.splits if_splits option.splits)

lemma addConfig_settings: "settings (snd (addConfig a n t u k st)) = settings st"
proof (cases "getAllConfigs st")
  case (Pair r st')
  have s: "settings st' = settings st"
    using getAllConfigs_settings [of st] Pair by simp
  show ?thesis
    using s file_ops_settings(2)
    by (cases r)
       (auto simp: addConfig_def Pair Let_def split: option.splits sum.splits)
qed

lemma removeConfig_settings: "settings (snd (removeConfig a st)) = settings st"
proof (cases "getAllConfigs st")
  case (Pair r st')
  have s: "settings st' = settings st"
    using getAllConfigs_settings [of st] Pair by simp
  show ?thesis
  proof (cases r)
    case (Inl e)
    then show ?thesis using s by (simp add: removeConfig_def Pair)
  next
    case (Inr configs)
    show ?thesis
    proof (cases "find (\<lambda>config. alias' config = Some a) configs")
      case None
      then show ?thesis using s by (simp add: removeConfig_def Pair Inr)
    next
      case (Some c)
      let ?content = "join [LF] (map configLine (filter (\<lambda>config. alias' config \<noteq> Some a) configs))"
      show ?thesis
      proof (cases "writeFileSync ConfigFile ?content st'")
        case (Inl e)
        then show ?thesis using s by (simp add: removeConfig_def Pair Inr Some Let_def)
      next
        case w: (Inr st1)
        have s1: "settings st1 = settings st" using file_ops_settings(1) [OF w] s by simp
        have "settings (snd (removeConfig a st)) = settings st1"
          using file_ops_settings(3) [of CurrentFile st1]
          by (auto simp: removeConfig_def Pair Inr Some Let_def w split: sum.splits)
        with s1 show ?thesis by simp
      qed
    qed
  qed
qed

lemma envEntry_defaultSettings: "envEntry defaultSettings ''ANTHROPIC_API_KEY'' = None"
  by (simp add: defaultSettings_def envEntry_def jsonMember_def)

lemma settingsApiKey_read: "settingsApiKey st = envEntry (readClaudeSettings st) ''ANTHROPIC_API_KEY''"
  by (auto simp: settingsApiKey_def readClaudeSettings_def envEntry_defaultSettings
      split: option.splits settings_content.splits)

lemma updateClaudeSettings_apiKey:
  "settingsApiKey (snd (updateClaudeSettings t b st)) = settingsApiKey st"
proof -
  obtain r st' where u: "updateClaudeSettings t b st = (r, st')"
    by (cases "updateClaudeSettings t b st") auto
  from u show ?thesis
  proof (cases rule: updateClaudeSettings_result)
    case (thrown e)
    then show ?thesis using u by simp
  next
    case (written doc1 doc2)
    have "envEntry doc2 ''ANTHROPIC_API_KEY'' = envEntry (readClaudeSettings st) ''ANTHROPIC_API_KEY''"
      using assignEnv_frame(2) [OF written(2), of "''ANTHROPIC_API_KEY''"]
        assignEnv_frame(2) [OF written(3), of "''ANTHROPIC_API_KEY''"]
      by simp
    then show ?thesis
      using u written(4) by (simp add: settingsApiKey_read [of st]) (simp add: settingsApiKey_def)
  qed
qed

lemma updateClaudeSettings_writes:
  assumes "SettingsFile \<notin> unwritable st" and "envIsObject (readClaudeSettings st)"
  shows "\<exists>d'. updateClaudeSettings (Some secret) (Some baseUrl) st
             = (Inr (), st\<lparr>settings := Some (Parsed d')\<rparr>)
           \<and> envEntry d' ''ANTHROPIC_AUTH_TOKEN'' = Some (JStr secret)
           \<and> envEntry d' ''ANTHROPIC_BASE_URL'' = Some (JStr baseUrl)"
proof -
  from assignEnv_succeeds [OF assms(2)] obtain doc1
    where a1: "assignEnv ''ANTHROPIC_AUTH_TOKEN'' (Some secret) (readClaudeSettings st) = Inr doc1"
    by blast
  note f1 = assignEnv_frame [OF a1]
  have o1: "envIsObject doc1" using f1(3) assms(2) by simp
  from assignEnv_succeeds [OF o1] obtain doc2
    where a2: "assignEnv ''ANTHROPIC_BASE_URL'' (Some baseUrl) doc1 = Inr doc2"
    by blast
  note f2 = assignEnv_frame [OF a2]
  have "envEntry doc2 ''ANTHROPIC_AUTH_TOKEN'' = Some (JStr secret)"
    using f2(2) [of "''ANTHROPIC_AUTH_TOKEN''"] f1(4) assms(2) by simp
  moreover have "envEntry doc2 ''ANTHROPIC_BASE_URL'' = Some (JStr baseUrl)"
    using f2(4) o1 by simp
  moreover have "updateClaudeSettings (Some secret) (Some baseUrl) st
             = (Inr (), st\<lparr>settings := Some (Parsed doc2)\<rparr>)"
    using assms(1) by (simp add: updateClaudeSettings_def a1 a2 writeClaudeSettings_def)
  ultimately show ?thesis by blast
qed

lemma setCurrentConfig_returns:
  assumes "CurrentFile \<notin> unwritable st"
    and "fst (updateClaudeSettings (token P) (url P) st) = Inr ()"
  shows "fst (setCurrentConfig P st) = Inr ()"
proof -
  let ?st1 = "st\<lparr>files := (files st)(CurrentFile \<mapsto> configLine P)\<rparr>"
  have "fst (updateClaudeSettings (token P) (url P) ?st1)
          = fst (updateClaudeSettings (token P) (url P) st)"
    by (rule updateClaudeSettings_files_irrelevant)
  then obtain st2 where "updateClaudeSettings (token P) (url P) ?st1 = (Inr (), st2)"
    using assms(2) by (cases "updateClaudeSettings (token P) (url P) ?st1") auto
  then show ?thesis
    using assms(1) by (simp add: setCurrentConfig_def writeFileSync_def)
qed

text \<open>
  C10, as amended. The settings file after activation does not depend on the profile's
  kind; activation leaves the entry \<^verbatim>\<open>env.ANTHROPIC_API_KEY\<close> of the settings file as it
  was, and adding, removing and listing profiles leave the settings file alone. When the
  pointer file and the settings file can be written and the document that is updated (the
  file's, or the default one) has an object for \<^verbatim>\<open>env\<close>, activation of a profile of any
  kind succeeds and the settings file then has the profile's secret in
  \<^verbatim>\<open>env.ANTHROPIC_AUTH_TOKEN\<close> and its base URL in \<^verbatim>\<open>env.ANTHROPIC_BASE_URL\<close>.
\<close>

theorem settings_file_kind_blind:
  "settings (snd (setCurrentConfig (P\<lparr>type := k1\<rparr>) st))
     = settings (snd (setCurrentConfig (P\<lparr>type := k2\<rparr>) st))
   \<and> settingsApiKey (snd (setCurrentConfig P st)) = settingsApiKey st
   \<and> settings (snd (addConfig a n t u k st)) = settings st
   \<and> settings (snd (removeConfig a st)) = settings st
   \<and> settings (snd (getAllConfigs st)) = settings st
   \<and> (CurrentFile \<notin> unwritable st \<and> SettingsFile \<notin> unwritable st
        \<and> envIsObject (readClaudeSettings st)
        \<and> token P = Some secret \<and> url P = Some baseUrl \<longrightarrow>
        fst (setCurrentConfig P st) = Inr ()
        \<and> (\<exists>d'. settings (snd (setCurrentConfig P st)) = Some (Parsed d')
               \<and> envEntry d' ''ANTHROPIC_AUTH_TOKEN'' = Some (JStr secret)
               \<and> envEntry d' ''ANTHROPIC_BASE_URL'' = Some (JStr baseUrl)))"
proof (intro conjI impI)
  show "settings (snd (setCurrentConfig (P\<lparr>type := k1\<rparr>) st))
     = settings (snd (setCurrentConfig (P\<lparr>type := k2\<rparr>) st))"
    by (simp add: setCurrentConfig_settings)
  show "settingsApiKey (snd (setCurrentConfig P st)) = settingsApiKey st"
    using setCurrentConfig_settings [of P st] updateClaudeSettings_apiKey [of "token P" "url P" st]
    by (simp add: settingsApiKey_def split: if_splits)
  show "settings (snd (addConfig a n t u k st)) = settings st" by (rule addConfig_settings)
  show "settings (snd (removeConfig a st)) = settings st" by (rule removeConfig_settings)
  show "settings (snd (getAllConfigs st)) = settings st" by (rule getAllConfigs_settings)
next
  assume h: "CurrentFile \<notin> unwritable st \<and> SettingsFile \<notin> unwritable st
        \<and> envIsObject (readClaudeSettings st)
        \<and> token P = Some secret \<and> url P = Some baseUrl"
  from updateClaudeSettings_writes [of st secret baseUrl] h obtain d' where
    u: "updateClaudeSettings (token P) (url P) st = (Inr (), st\<lparr>settings := Some (Parsed d')\<rparr>)"
    and e: "envEntry d' ''ANTHROPIC_AUTH_TOKEN'' = Some (JStr secret)"
      "envEntry d' ''ANTHROPIC_BASE_URL'' = Some (JStr baseUrl)"
    by auto
  have f: "fst (updateClaudeSettings (token P) (url P) st) = Inr ()" using u by simp
  show "fst (setCurrentConfig P st) = Inr ()"
    using setCurrentConfig_returns [of st P] h f by simp
  show "\<exists>d'. settings (snd (setCurrentConfig P st)) = Some (Parsed d')
               \<and> envEntry d' ''ANTHROPIC_AUTH_TOKEN'' = Some (JStr secret)
               \<and> envEntry d' ''ANTHROPIC_BASE_URL'' = Some (JStr baseUrl)"
    using h u e by (simp add: setCurrentConfig_settings)
qed


text \<open>
  C10 as stated fails for a settings file whose \<^verbatim>\<open>env\<close> is an array: the update is carried
  out and the file is rewritten, but the secret is not in it.
\<close>

theorem settings_file_kind_blind_counterexample:
  "fst (setCurrentConfig kimi arrayEnvState) = Inr ()
   \<and> token kimi = Some ''sk-xxx''
   \<and> settings arrayEnvState = Some (Parsed (JObj [(''env'', JArr [])]))
   \<and> fst (updateClaudeSettings (token kimi) (url kimi) arrayEnvState) = Inr ()
   \<and> settings (snd (setCurrentConfig kimi arrayEnvState)) = Some (Parsed (JObj [(''env'', JArr [])]))
   \<and> envEntry (JObj [(''env'', JArr [])]) ''ANTHROPIC_AUTH_TOKEN'' = None"
proof -
  have u: "updateClaudeSettings (token kimi) (url kimi) arrayEnvState = (Inr (), arrayEnvState)"
    by (simp add: updateClaudeSettings_def readClaudeSettings_def assignEnv_def
        writeClaudeSettings_def arrayEnvState_def emptyState_def)
  have w: "CurrentFile \<notin> unwritable arrayEnvState"
    by (simp add: arrayEnvState_def emptyState_def)
  have r: "fst (setCurrentConfig kimi arrayEnvState) = Inr ()"
    using setCurrentConfig_returns [OF w] u by simp
  have s: "settings arrayEnvState = Some (Parsed (JObj [(''env'', JArr [])]))"
    by (simp add: arrayEnvState_def)
  have s': "settings (snd (setCurrentConfig kimi arrayEnvState)) = Some (Parsed (JObj [(''env'', JArr [])]))"
    using w s by (simp add: setCurrentConfig_settings u)
  have e: "envEntry (JObj [(''env'', JArr [])]) ''ANTHROPIC_AUTH_TOKEN'' = None"
    by (simp add: envEntry_def jsonMember_def)
  have t: "token kimi = Some ''sk-xxx''" by (simp add: kimi_def)
  from r t s u s' e show ?thesis by simp
qed

theorem settings_file_kind_blind_witness:
  "CurrentFile \<notin> unwritable emptyState \<and> SettingsFile \<notin> unwritable emptyState
   \<and> envIsObject (readClaudeSettings emptyState)
   \<and> type (kimi\<lparr>type := Some ''KEY''\<rparr>) = Some ''KEY''
   \<and> token (kimi\<lparr>type := Some ''KEY''\<rparr>) = Some ''sk-xxx''
   \<and> url (kimi\<lparr>type := Some ''KEY''\<rparr>) = Some ''https://api.moonshot.cn/anthropic''
   \<and> fst (setCurrentConfig (kimi\<lparr>type := Some ''KEY''\<rparr>) emptyState) = Inr ()
   \<and> (\<exists>d'. settings (snd (setCurrentConfig (kimi\<lparr>type := Some ''KEY''\<rparr>) emptyState)) = Some (Parsed d')
          \<and> envEntry d' ''ANTHROPIC_AUTH_TOKEN'' = Some (JStr ''sk-xxx'')
          \<and> envEntry d' ''ANTHROPIC_BASE_URL'' = Some (JStr ''https://api.moonshot.cn/anthropic''))
   \<and> settingsApiKey (snd (setCurrentConfig (kimi\<lparr>type := Some ''KEY''\<rparr>) emptyState)) = None"
proof -
  let ?P = "kimi\<lparr>type := Some ''KEY''\<rparr>"
  have w: "CurrentFile \<notin> unwritable emptyState" "SettingsFile \<notin> unwritable emptyState"
    by (simp_all add: emptyState_def)
  have o: "envIsObject (readClaudeSettings emptyState)"
    by (simp add: envIsObject_def jsonMember_def readClaudeSettings_def defaultSettings_def
        emptyState_def)
  have p: "type ?P = Some ''KEY''" "token ?P = Some ''sk-xxx''"
    "url ?P = Some ''https://api.moonshot.cn/anthropic''"
    by (simp_all add: kimi_def)
  have k: "settingsApiKey emptyState = None"
    by (simp add: settingsApiKey_def emptyState_def)
  note T = settings_file_kind_blind [where P = ?P and st = emptyState
      and secret = "''sk-xxx''" and baseUrl = "''https://api.moonshot.cn/anthropic''"]
  have x: "fst (setCurrentConfig ?P emptyState) = Inr ()
        \<and> (\<exists>d'. settings (snd (setCurrentConfig ?P emptyState)) = Some (Parsed d')
               \<and> envEntry d' ''ANTHROPIC_AUTH_TOKEN'' = Some (JStr ''sk-xxx'')
               \<and> envEntry d' ''ANTHROPIC_BASE_URL'' = Some (JStr ''https://api.moonshot.cn/anthropic''))"
    using T w o p by blast
  have y: "settingsApiKey (snd (setCurrentConfig ?P emptyState)) = None"
    using T k by simp
  from w o p x y show ?thesis by (intro conjI) simp_all
qed

end
